theory Spec2Isabelle
  imports Complex_Main "HOL-Library.Word"
begin

section \<open>The slim image transformers of the CNTK image reader\<close>

text \<open>
  A shallow embedding of \<^verbatim>\<open>Source/Readers/ImageReader/ImageSlimTransformers.cpp\<close>.

  Conventions of the model.
  \<^item> \<^verbatim>\<open>LogicError\<close> and \<^verbatim>\<open>RuntimeError\<close> throw; a failed \<^verbatim>\<open>assert\<close> aborts. All three
    are values of the type \<open>error\<close>, and a function that can fail returns a sum, the
    error on the left. Whether an \<^verbatim>\<open>assert\<close> is checked depends on the build: the
    functions that assert take the flag \<open>NDEBUG\<close>, and the assertion is checked when the
    flag is off and compiled out when it is on.
  \<^item> \<^verbatim>\<open>int\<close> is modelled by \<open>int\<close>: under the preconditions that \<^verbatim>\<open>GetCropRect\<close> asserts,
    every intermediate value lies between \<open>0\<close> and the image's larger side, so no
    operation overflows. \<^verbatim>\<open>size_t\<close> values are natural numbers; the product that the
    scale transformer checks wraps at \<open>2 ^ 64\<close>, and the conversions between \<^verbatim>\<open>size_t\<close>
    and \<^verbatim>\<open>int\<close> are written out.
  \<^item> \<^verbatim>\<open>double\<close> values (the crop ratios) are real numbers, and comparisons of them are
    exact. The one arithmetic operation on them, the product
    \<^verbatim>\<open>std::min(crow, ccol) * cropRatio\<close>, is the product of IEEE 754 binary64: the exact
    product rounded to the nearest double, ties to even.
  \<^item> The pseudo-random generator and the distributions of \<^verbatim>\<open><random>\<close> are library
    code; they are a parameter of the model (a record of functions on an abstract
    generator state \<open>'g\<close>), constrained only by the ranges the C++ standard promises.
  \<^item> Images (\<^verbatim>\<open>cv::Mat\<close>) are values: a header (rows, columns, depth, channels) and the
    row-major, channel-interleaved list of elements.
\<close>

subsection \<open>Errors\<close>

datatype error =
    LogicError string
  | RuntimeError string
  | AssertionFailed
  | cvException

subsection \<open>The random-number library\<close>

record 'g stdlib =
  mt19937 :: "nat \<Rightarrow> 'g"
  UniIntT :: "int \<Rightarrow> int \<Rightarrow> 'g \<Rightarrow> int \<times> 'g"
  UniRealT :: "real \<Rightarrow> real \<Rightarrow> 'g \<Rightarrow> real \<times> 'g"
  bernoulli_distribution :: "'g \<Rightarrow> bool \<times> 'g"

text \<open>
  What the standard promises of the distributions:
  \<^verbatim>\<open>uniform_int_distribution(a, b)\<close> with \<open>a \<le> b\<close> yields a value in \<open>[a, b]\<close>, and
  \<^verbatim>\<open>uniform_real_distribution(a, b)\<close> with \<open>a < b\<close> yields a value in \<open>[a, b)\<close>.
\<close>

definition stdlib_ok :: "'g stdlib \<Rightarrow> bool" where
  "stdlib_ok lib \<longleftrightarrow>
     (\<forall>a b g. a \<le> b \<longrightarrow> a \<le> fst (UniIntT lib a b g) \<and> fst (UniIntT lib a b g) \<le> b) \<and>
     (\<forall>a b g. a < b \<longrightarrow> a \<le> fst (UniRealT lib a b g) \<and> fst (UniRealT lib a b g) < b)"

text \<open>
  A small generator to run the model on: the state is a counter, each draw reads the
  counter and advances it. It meets \<open>stdlib_ok\<close>.
\<close>

definition counter_lib :: "nat stdlib" where
  "counter_lib =
     \<lparr> mt19937 = (\<lambda>seed. seed),
       UniIntT = (\<lambda>a b g. (a + int g mod (b - a + 1), Suc g)),
       UniRealT = (\<lambda>a b g. (a + (b - a) * (real (g mod 4) / 4), Suc g)),
       bernoulli_distribution = (\<lambda>g. (even g, Suc g)) \<rparr>"

subsection \<open>The generator pool (\<^verbatim>\<open>conc_stack\<close>)\<close>

text \<open>
  Modelled from the spec: \<^verbatim>\<open>ConcStack.h\<close> is not among the sources. A worker removes an
  available generator from the pool or, if none is available, constructs a new one;
  it returns the generator to the pool afterwards.
\<close>

definition pop_or_create :: "(unit \<Rightarrow> 'g) \<Rightarrow> 'g list \<Rightarrow> 'g \<times> 'g list" where
  "pop_or_create factory m_rngs =
     (case m_rngs of [] \<Rightarrow> (factory (), []) | g # rest \<Rightarrow> (g, rest))"

definition push :: "'g \<Rightarrow> 'g list \<Rightarrow> 'g list" where
  "push g m_rngs = g # m_rngs"

subsection \<open>Assertions\<close>

text \<open>
  \<^verbatim>\<open>assert(cond)\<close> aborts when \<open>cond\<close> is false, unless the build defines \<^verbatim>\<open>NDEBUG\<close>; then
  it is compiled out.
\<close>

definition assert_fails :: "bool \<Rightarrow> bool \<Rightarrow> bool" where
  "assert_fails NDEBUG cond \<longleftrightarrow> \<not> NDEBUG \<and> \<not> cond"

subsection \<open>C++ arithmetic\<close>

text \<open>\<^verbatim>\<open>static_cast<int>\<close> of a \<^verbatim>\<open>double\<close> truncates towards zero.\<close>

definition static_cast_int :: "real \<Rightarrow> int" where
  "static_cast_int r = (if 0 \<le> r then \<lfloor>r\<rfloor> else \<lceil>r\<rceil>)"

text \<open>
  Double precision. A double other than zero is \<open>m * 2 ^ e\<close> with an integer \<open>m\<close> of at
  most 53 bits and \<open>e \<ge> -1074\<close>. To round a real number \<open>x\<close>, take the exponent that gives
  its leading bit the weight \<open>2 ^ 52\<close> (or \<open>-1074\<close>, for the subnormal numbers) and round
  \<open>x / 2 ^ e\<close> to the nearest integer, a tie to the even one. Overflow to infinity is not
  modelled: the products of this program are at most \<open>2 ^ 31\<close>.
\<close>

fun bit_length :: "nat \<Rightarrow> nat" where
  "bit_length n = (if n = 0 then 0 else Suc (bit_length (n div 2)))"

declare bit_length.simps [simp del]

text \<open>The integer part of the binary logarithm of a positive number.\<close>

definition ilog2 :: "real \<Rightarrow> int" where
  "ilog2 x =
     (if 1 \<le> x then int (bit_length (nat \<lfloor>x\<rfloor>)) - 1
      else - int (bit_length (nat (\<lceil>1 / x\<rceil> - 1))))"

definition pow2 :: "int \<Rightarrow> real" where
  "pow2 e = (if 0 \<le> e then 2 ^ nat e else 1 / 2 ^ nat (- e))"

definition round_half_even :: "real \<Rightarrow> int" where
  "round_half_even y =
     (let f = \<lfloor>y\<rfloor>; d = y - real_of_int f
      in if d < 1 / 2 then f else if 1 / 2 < d then f + 1 else if even f then f else f + 1)"

definition double_round :: "real \<Rightarrow> real" where
  "double_round x =
     (if x = 0 then 0
      else
        let e = max (ilog2 \<bar>x\<bar> - 52) (- 1074)
        in sgn x * real_of_int (round_half_even (\<bar>x\<bar> / pow2 e)) * pow2 e)"

text \<open>The product of two doubles: the exact product, rounded.\<close>

definition double_mul :: "real \<Rightarrow> real \<Rightarrow> real" where
  "double_mul a b = double_round (a * b)"

text \<open>Integer division and remainder of C++ truncate towards zero.\<close>

definition cdiv :: "int \<Rightarrow> int \<Rightarrow> int" where
  "cdiv a b = sgn a * sgn b * (\<bar>a\<bar> div \<bar>b\<bar>)"

definition cmod :: "int \<Rightarrow> int \<Rightarrow> int" where
  "cmod a b = a - b * cdiv a b"

subsection \<open>Images\<close>

record 'a Mat =
  rows :: int
  cols :: int
  depth :: int
  channels :: int
  elems :: "'a list"

datatype Rect = Rect (rect_x: int) (rect_y: int) (rect_width: int) (rect_height: int)

text \<open>
  \<^verbatim>\<open>mat(rect)\<close>: the region of interest. OpenCV checks that the rectangle lies inside
  the image and throws otherwise. Element \<open>i\<close> of the result is channel \<open>i mod ch\<close> of
  the pixel at row \<open>y + r\<close>, column \<open>x + c\<close> of the source.
\<close>

definition cv_roi :: "'a Mat \<Rightarrow> Rect \<Rightarrow> error + 'a Mat" where
  "cv_roi m r =
     (if 0 \<le> rect_x r \<and> 0 \<le> rect_width r \<and> rect_x r + rect_width r \<le> cols m \<and>
         0 \<le> rect_y r \<and> 0 \<le> rect_height r \<and> rect_y r + rect_height r \<le> rows m
      then
        let ch = nat (channels m); w = nat (rect_width r); h = nat (rect_height r)
        in Inr (m \<lparr> rows := rect_height r, cols := rect_width r,
                    elems := map (\<lambda>i. elems m !
                                   ((((nat (rect_y r) + i div (w * ch)) * nat (cols m))
                                      + (nat (rect_x r) + (i mod (w * ch)) div ch)) * ch + i mod ch))
                                 [0 ..< h * w * ch] \<rparr>)
      else Inl cvException)"

text \<open>\<^verbatim>\<open>cv::flip(mat, mat, 1)\<close>: every row is mirrored, pixel by pixel.\<close>

definition cv_flip_horizontal :: "'a Mat \<Rightarrow> 'a Mat" where
  "cv_flip_horizontal m =
     (let ch = nat (channels m); w = nat (cols m); h = nat (rows m)
      in m \<lparr> elems := map (\<lambda>i. elems m !
                              ((i div (w * ch)) * (w * ch)
                                 + (w - 1 - (i mod (w * ch)) div ch) * ch + i mod ch))
                            [0 ..< h * w * ch] \<rparr>)"

subsection \<open>The crop transformer\<close>

datatype CropType = Center | Random | MultiView10

datatype RatioJitterType = JNone | UniRatio | UniLength | UniArea

text \<open>
  \<^verbatim>\<open>GetCropRect\<close>. The generator is passed by reference; the model returns it next to the
  rectangle. The offsets start at \<open>-1\<close> and are set by the strategy. The smaller side is
  converted to \<^verbatim>\<open>double\<close> (exactly, it is an \<^verbatim>\<open>int\<close>), multiplied by the ratio in double
  precision, and the product is truncated.
\<close>

definition GetCropRect ::
  "bool \<Rightarrow> 'g stdlib \<Rightarrow> CropType \<Rightarrow> int \<Rightarrow> int \<Rightarrow> int \<Rightarrow> real \<Rightarrow> 'g \<Rightarrow>
     error + (Rect \<times> 'g)" where
  "GetCropRect NDEBUG lib type viewIndex crow ccol cropRatio rng =
     (if assert_fails NDEBUG (crow > 0) then Inl AssertionFailed
      else if assert_fails NDEBUG (ccol > 0) then Inl AssertionFailed
      else if assert_fails NDEBUG (0 < cropRatio \<and> cropRatio \<le> 1) then Inl AssertionFailed
      else
        let cropSize = static_cast_int (double_mul (real_of_int (min crow ccol)) cropRatio) in
        case
          (case type of
             Center \<Rightarrow>
               if assert_fails NDEBUG (viewIndex = 0) then Inl AssertionFailed
               else Inr (cdiv (ccol - cropSize) 2, cdiv (crow - cropSize) 2, rng)
           | Random \<Rightarrow>
               if assert_fails NDEBUG (viewIndex = 0) then Inl AssertionFailed
               else
                 let (xOff, rng1) = UniIntT lib 0 (ccol - cropSize) rng;
                     (yOff, rng2) = UniIntT lib 0 (crow - cropSize) rng1
                 in Inr (xOff, yOff, rng2)
           | MultiView10 \<Rightarrow>
               if assert_fails NDEBUG (0 \<le> viewIndex \<and> viewIndex < 10) then Inl AssertionFailed
               else
                 let isubView = cmod viewIndex 5 in
                 if isubView = 0 then Inr (0, 0, rng)
                 else if isubView = 1 then Inr (ccol - cropSize, 0, rng)
                 else if isubView = 2 then Inr (0, crow - cropSize, rng)
                 else if isubView = 3 then Inr (ccol - cropSize, crow - cropSize, rng)
                 else if isubView = 4
                   then Inr (cdiv (ccol - cropSize) 2, cdiv (crow - cropSize) 2, rng)
                 else Inr (- 1, - 1, rng))
        of
          Inl e \<Rightarrow> Inl e
        | Inr (xOff, yOff, rng') \<Rightarrow>
            if assert_fails NDEBUG (0 \<le> xOff \<and> xOff \<le> ccol - cropSize) then Inl AssertionFailed
            else if assert_fails NDEBUG (0 \<le> yOff \<and> yOff \<le> crow - cropSize)
              then Inl AssertionFailed
            else Inr (Rect xOff yOff cropSize cropSize, rng'))"

subsection \<open>Names of strategies and jitter modes\<close>

text \<open>\<^verbatim>\<open>std::tolower\<close> in the C locale: the letters \<open>A\<close> to \<open>Z\<close> are mapped to \<open>a\<close> to \<open>z\<close>.\<close>

definition tolower :: "char \<Rightarrow> char" where
  "tolower c =
     (case map_of (zip ''ABCDEFGHIJKLMNOPQRSTUVWXYZ'' ''abcdefghijklmnopqrstuvwxyz'') c of
        None \<Rightarrow> c
      | Some l \<Rightarrow> l)"

text \<open>
  Modelled from the spec: \<^verbatim>\<open>StringUtil.h\<close> is not among the sources. Names are compared
  case-insensitively.
\<close>

definition AreEqualIgnoreCase :: "string \<Rightarrow> string \<Rightarrow> bool" where
  "AreEqualIgnoreCase s1 s2 \<longleftrightarrow> map tolower s1 = map tolower s2"

definition ParseCropType :: "string \<Rightarrow> error + CropType" where
  "ParseCropType src =
     (if src = [] \<or> AreEqualIgnoreCase src ''center'' then Inr Center
      else if AreEqualIgnoreCase src ''random'' then Inr Random
      else if AreEqualIgnoreCase src ''multiview10'' then Inr MultiView10
      else Inl (RuntimeError (''Invalid crop type: '' @ src @ ''.'')))"

definition ParseJitterType :: "string \<Rightarrow> error + RatioJitterType" where
  "ParseJitterType src =
     (if src = [] \<or> AreEqualIgnoreCase src ''none'' then Inr JNone
      else if AreEqualIgnoreCase src ''uniratio'' then Inr UniRatio
      else if AreEqualIgnoreCase src ''unilength'' then Inr UniLength
      else if AreEqualIgnoreCase src ''uniarea'' then Inr UniArea
      else Inl (RuntimeError (''Invalid jitter type: '' @ src @ ''.'')))"

subsection \<open>Streams, tensor shapes and sequences\<close>

text \<open>
  Modelled from the spec: the declarations of the stream descriptor, of the tensor shape
  and of the geometry helpers are not among the sources. A stream has a storage kind, an
  element type and a three-dimensional sample layout; the helpers convert between a
  tensor shape and the named image layouts, interleaved (HWC: channels, width, height)
  and planar (CHW: width, height, channels).
\<close>

datatype StorageType = dense | sparse_csc

datatype ElementType = tfloat | tdouble | tatom

datatype TensorShape = TensorShape nat nat nat

datatype ImageLayoutKind = HWC | CHW

record StreamDescription =
  m_storageType :: StorageType
  m_elementType :: ElementType
  m_sampleLayout :: TensorShape

record ImageDimensions =
  m_width :: nat
  m_height :: nat
  m_numChannels :: nat

fun GetNumElements :: "TensorShape \<Rightarrow> nat" where
  "GetNumElements (TensorShape d0 d1 d2) = d0 * d1 * d2"

fun ImageDimensions_of :: "TensorShape \<Rightarrow> ImageLayoutKind \<Rightarrow> ImageDimensions" where
  "ImageDimensions_of (TensorShape d0 d1 d2) HWC =
     \<lparr> m_width = d1, m_height = d2, m_numChannels = d0 \<rparr>"
| "ImageDimensions_of (TensorShape d0 d1 d2) CHW =
     \<lparr> m_width = d0, m_height = d1, m_numChannels = d2 \<rparr>"

fun AsTensorShape :: "ImageDimensions \<Rightarrow> ImageLayoutKind \<Rightarrow> TensorShape" where
  "AsTensorShape d HWC = TensorShape (m_numChannels d) (m_width d) (m_height d)"
| "AsTensorShape d CHW = TensorShape (m_width d) (m_height d) (m_numChannels d)"

text \<open>
  A dense sequence: the sample identifier, the elements, the number of samples and the
  layout of a sample. The element type of the buffer is the type parameter.
\<close>

record 'a DenseSequenceData =
  m_id :: nat
  m_data :: "'a list"
  m_numberOfSamples :: nat
  m_sampleLayout_seq :: TensorShape

text \<open>
  Conversions between \<^verbatim>\<open>size_t\<close> (64 bits) and \<^verbatim>\<open>int\<close> (32 bits, two's complement):
  \<^verbatim>\<open>static_cast<int>\<close> keeps the low 32 bits, the implicit conversion to \<^verbatim>\<open>size_t\<close> wraps.
\<close>

definition int_of_size_t :: "nat \<Rightarrow> int" where
  "int_of_size_t n = sint (word_of_nat n :: 32 word)"

definition size_t_of_int :: "int \<Rightarrow> nat" where
  "size_t_of_int i = nat (i mod 2 ^ 64)"

subsection \<open>OpenCV types and operations\<close>

text \<open>
  The type of an image packs the depth into the low three bits and the number of
  channels, less one, above them (\<^verbatim>\<open>CV_MAKETYPE\<close>, \<^verbatim>\<open>CV_MAT_DEPTH\<close>, \<^verbatim>\<open>CV_MAT_CN\<close>); the
  masks and shifts are written as \<open>mod\<close> and \<open>div\<close>. The field \<open>depth\<close> of the record
  holds the depth, \<open>channels\<close> the number of channels, as the type of the image gives
  them back.
\<close>

definition CV_32F :: int where "CV_32F = 5"
definition CV_64F :: int where "CV_64F = 6"

definition CV_MAKETYPE :: "int \<Rightarrow> int \<Rightarrow> int" where
  "CV_MAKETYPE d cn = d mod 8 + (cn - 1) * 8"

definition CV_MAT_DEPTH :: "int \<Rightarrow> int" where
  "CV_MAT_DEPTH flags = flags mod 8"

definition CV_MAT_CN :: "int \<Rightarrow> int" where
  "CV_MAT_CN flags = (flags div 8) mod 512 + 1"

definition Mat_type :: "'a Mat \<Rightarrow> int" where
  "Mat_type m = CV_MAKETYPE (depth m) (channels m)"

text \<open>\<^verbatim>\<open>cv::Mat(rows, cols, type, data)\<close>: a header over the given elements.\<close>

definition Mat_of :: "int \<Rightarrow> int \<Rightarrow> int \<Rightarrow> 'a list \<Rightarrow> 'a Mat" where
  "Mat_of r c type d =
     \<lparr> rows = r, cols = c, depth = CV_MAT_DEPTH type, channels = CV_MAT_CN type, elems = d \<rparr>"

text \<open>\<^verbatim>\<open>mat.size()\<close> is the pair of width and height.\<close>

definition Mat_size :: "'a Mat \<Rightarrow> int \<times> int" where
  "Mat_size m = (cols m, rows m)"

text \<open>
  The numeric kernels of OpenCV are a parameter: the conversion of an element from one
  depth to another, and the elements of a resized image (source, target width, target
  height, interpolation).
\<close>

record 'a cvlib =
  cv_convert :: "int \<Rightarrow> int \<Rightarrow> 'a \<Rightarrow> 'a"
  cv_resample :: "'a Mat \<Rightarrow> int \<Rightarrow> int \<Rightarrow> int \<Rightarrow> 'a list"

text \<open>\<^verbatim>\<open>mat.convertTo(mat, rtype)\<close> changes the depth and keeps the channels.\<close>

definition convertTo :: "'a cvlib \<Rightarrow> 'a Mat \<Rightarrow> int \<Rightarrow> 'a Mat" where
  "convertTo cv m rtype =
     (if depth m = CV_MAT_DEPTH rtype then m
      else m \<lparr> depth := CV_MAT_DEPTH rtype,
               elems := map (cv_convert cv (depth m) (CV_MAT_DEPTH rtype)) (elems m) \<rparr>)"

text \<open>
  \<^verbatim>\<open>cv::resize(mat, mat, cv::Size(w, h), 0, 0, interp)\<close>: OpenCV rejects an empty source
  and an empty target size; the result has the target size and the type of the source.
\<close>

definition cv_resize :: "'a cvlib \<Rightarrow> 'a Mat \<Rightarrow> int \<Rightarrow> int \<Rightarrow> int \<Rightarrow> error + 'a Mat" where
  "cv_resize cv m w h interp =
     (if cols m \<le> 0 \<or> rows m \<le> 0 \<or> w \<le> 0 \<or> h \<le> 0 then Inl cvException
      else Inr (m \<lparr> rows := h, cols := w, elems := cv_resample cv m w h interp \<rparr>))"

text \<open>
  \<^verbatim>\<open>a - b\<close> on images: OpenCV requires the same size and the same type, and subtracts
  element by element.
\<close>

definition cv_subtract :: "('a::minus) Mat \<Rightarrow> 'a Mat \<Rightarrow> error + 'a Mat" where
  "cv_subtract a b =
     (if Mat_size a = Mat_size b \<and> Mat_type a = Mat_type b
      then Inr (a \<lparr> elems := map2 (-) (elems a) (elems b) \<rparr>)
      else Inl cvException)"

subsection \<open>The transformer base\<close>

text \<open>
  The values of the configuration, after parsing. A key that the source reads with a
  default is optional; \<open>cfg_hflip\<close> is \<open>None\<close> when the key does not exist.
\<close>

record ConfigParameters =
  cfg_seed :: "nat option"
  cfg_cropType :: "string option"
  cfg_cropRatio :: "(real \<times> real) option"
  cfg_jitterType :: "string option"
  cfg_hflip :: "bool option"
  cfg_width :: nat
  cfg_height :: nat
  cfg_channels :: nat
  cfg_interpolations :: "string option"

record SlimImageTransformerBase =
  m_seed :: nat
  m_imageElementType :: int
  m_inputStream :: StreamDescription
  m_outputStream :: StreamDescription

text \<open>
  A constructor initialises the object \<open>this\<close>; members it does not assign keep the
  value they had.
\<close>

definition SlimImageTransformerBase_ctor ::
  "ConfigParameters \<Rightarrow> 'z SlimImageTransformerBase_scheme \<Rightarrow> 'z SlimImageTransformerBase_scheme" where
  "SlimImageTransformerBase_ctor cfg this =
     this \<lparr> m_imageElementType := 0,
            m_seed := (case cfg_seed cfg of None \<Rightarrow> 0 | Some v \<Rightarrow> v) \<rparr>"

text \<open>
  \<^verbatim>\<open>Transform(const StreamDescription&)\<close>: the negotiation of the stream. The members are
  assigned before the checks, so the model returns the object next to the outcome.
\<close>

definition SlimImageTransformerBase_Transform ::
  "'z SlimImageTransformerBase_scheme \<Rightarrow> StreamDescription \<Rightarrow>
     (error + StreamDescription) \<times> 'z SlimImageTransformerBase_scheme" where
  "SlimImageTransformerBase_Transform this inputStream =
     (let t1 = this \<lparr> m_inputStream := inputStream, m_outputStream := inputStream \<rparr> in
      if m_storageType (m_inputStream t1) \<noteq> dense
        then (Inl (LogicError ''ImageTransformerBase supports only dense input streams.''), t1)
      else if m_elementType (m_inputStream t1) = tdouble
        then (Inr (m_outputStream t1), t1 \<lparr> m_imageElementType := CV_64F \<rparr>)
      else if m_elementType (m_inputStream t1) = tfloat
        then (Inr (m_outputStream t1), t1 \<lparr> m_imageElementType := CV_32F \<rparr>)
      else (Inl (RuntimeError ''Unsupported type''), t1))"

text \<open>
  \<^verbatim>\<open>Transform(SequenceDataPtr)\<close>: wrap the sample into an image, call the virtual \<^verbatim>\<open>Apply\<close>
  (the parameter \<open>Apply\<close>), and describe the result. Cloning a non-continuous image
  and keeping the original sequence alive do not change the value of the image, so
  both branches give the same result in the model. The identifier of the result is not
  assigned by the source; it is the \<open>0\<close> of a fresh sequence.
\<close>

definition SlimImageTransformerBase_Transform_seq ::
  "(nat \<Rightarrow> 'a Mat \<Rightarrow> 'p \<Rightarrow> (error + 'a Mat) \<times> 'p) \<Rightarrow> 'z SlimImageTransformerBase_scheme \<Rightarrow>
     'a DenseSequenceData \<Rightarrow> 'p \<Rightarrow> (error + 'a DenseSequenceData) \<times> 'p" where
  "SlimImageTransformerBase_Transform_seq Apply this sequence m_rngs =
     (let dimensions = ImageDimensions_of (m_sampleLayout_seq sequence) HWC;
          columns = int_of_size_t (m_width dimensions);
          rws = int_of_size_t (m_height dimensions);
          chans = int_of_size_t (m_numChannels dimensions);
          type = CV_MAKETYPE (m_imageElementType this) chans;
          buffer = Mat_of rws columns type (m_data sequence)
      in case Apply (m_id sequence) buffer m_rngs of
           (Inl e, m_rngs') \<Rightarrow> (Inl e, m_rngs')
         | (Inr buffer', m_rngs') \<Rightarrow>
             let outputDimensions =
                   \<lparr> m_width = size_t_of_int (cols buffer'),
                     m_height = size_t_of_int (rows buffer'),
                     m_numChannels = size_t_of_int (channels buffer') \<rparr>
             in (Inr \<lparr> m_id = 0, m_data = elems buffer',
                       m_numberOfSamples = m_numberOfSamples sequence,
                       m_sampleLayout_seq = AsTensorShape outputDimensions HWC \<rparr>, m_rngs'))"

subsection \<open>The crop transformer: construction and \<^verbatim>\<open>Apply\<close>\<close>

record SlimCropTransformer = SlimImageTransformerBase +
  m_cropType :: CropType
  m_cropRatioMin :: real
  m_cropRatioMax :: real
  m_jitterType :: RatioJitterType
  m_hFlip :: bool

definition SlimCropTransformer_ctor ::
  "ConfigParameters \<Rightarrow> SlimCropTransformer \<Rightarrow> error + SlimCropTransformer" where
  "SlimCropTransformer_ctor config this0 =
     (let this = SlimImageTransformerBase_ctor config this0 in
      case ParseCropType (case cfg_cropType config of None \<Rightarrow> [] | Some v \<Rightarrow> v) of
        Inl e \<Rightarrow> Inl e
      | Inr ct \<Rightarrow>
          let cropRatio = (case cfg_cropRatio config of None \<Rightarrow> (1, 1) | Some v \<Rightarrow> v);
              t1 = this \<lparr> m_cropType := ct, m_cropRatioMin := fst cropRatio,
                          m_cropRatioMax := snd cropRatio \<rparr>
          in
          if \<not> (0 < m_cropRatioMin t1 \<and> m_cropRatioMin t1 \<le> 1) \<or>
             \<not> (0 < m_cropRatioMax t1 \<and> m_cropRatioMax t1 \<le> 1) \<or>
             m_cropRatioMin t1 > m_cropRatioMax t1
          then Inl (RuntimeError
                 ''Invalid cropRatio value, must be > 0 and <= 1. cropMin must <= cropMax'')
          else
            case ParseJitterType (case cfg_jitterType config of None \<Rightarrow> [] | Some v \<Rightarrow> v) of
              Inl e \<Rightarrow> Inl e
            | Inr jt \<Rightarrow>
                let t2 = t1 \<lparr> m_jitterType := jt \<rparr> in
                (case cfg_hflip config of
                   None \<Rightarrow> Inr (t2 \<lparr> m_hFlip := (m_cropType t2 = Random) \<rparr>)
                 | Some v \<Rightarrow> Inr (t2 \<lparr> m_hFlip := v \<rparr>)))"

text \<open>
  \<^verbatim>\<open>Apply\<close>. The model returns, next to the image, the rectangle and the flip decision
  that produced it, so that properties of them can be stated. An exception leaves the
  borrowed generator out of the pool, as in the source.
\<close>

definition SlimCropTransformer_Apply ::
  "bool \<Rightarrow> 'g stdlib \<Rightarrow> SlimCropTransformer \<Rightarrow> nat \<Rightarrow> 'a Mat \<Rightarrow> 'g list \<Rightarrow>
     (error + ('a Mat \<times> Rect \<times> bool)) \<times> 'g list" where
  "SlimCropTransformer_Apply NDEBUG lib this sid mat m_rngs =
     (let seed = m_seed this;
          (rng, pool) = pop_or_create (\<lambda>_. mt19937 lib seed) m_rngs
      in
      case
        (case m_jitterType this of
           JNone \<Rightarrow> Inr (m_cropRatioMin this, rng)
         | UniRatio \<Rightarrow>
             if m_cropRatioMin this = m_cropRatioMax this then Inr (m_cropRatioMin this, rng)
             else
               let (ratio, rng1) = UniRealT lib (m_cropRatioMin this) (m_cropRatioMax this) rng
               in if assert_fails NDEBUG (m_cropRatioMin this \<le> ratio \<and> ratio < m_cropRatioMax this)
                  then Inl AssertionFailed else Inr (ratio, rng1)
         | _ \<Rightarrow> Inl (RuntimeError ''Jitter type currently not implemented.''))
      of
        Inl e \<Rightarrow> (Inl e, pool)
      | Inr (ratio, rng1) \<Rightarrow>
          let viewIndex = (if m_cropType this = MultiView10 then int (sid mod 10) else 0) in
          case GetCropRect NDEBUG lib (m_cropType this) viewIndex (rows mat) (cols mat) ratio rng1 of
            Inl e \<Rightarrow> (Inl e, pool)
          | Inr (rect, rng2) \<Rightarrow>
              (case cv_roi mat rect of
                 Inl e \<Rightarrow> (Inl e, pool)
               | Inr mat1 \<Rightarrow>
                   let (coin, rng3) =
                         (if m_hFlip this then bernoulli_distribution lib rng2 else (False, rng2));
                       flip = (coin \<or> viewIndex \<ge> 5);
                       mat2 = (if flip then cv_flip_horizontal mat1 else mat1)
                   in (Inr (mat2, rect, flip), push rng3 pool)))"

text \<open>The first step of \<^verbatim>\<open>Apply\<close>, the \<^verbatim>\<open>switch\<close> on the jitter mode, for reference in proofs.\<close>

abbreviation jitter_switch ::
  "bool \<Rightarrow> 'g stdlib \<Rightarrow> SlimCropTransformer \<Rightarrow> 'g \<Rightarrow> error + real \<times> 'g" where
  "jitter_switch NDEBUG lib this rng \<equiv>
     (case m_jitterType this of
        JNone \<Rightarrow> Inr (m_cropRatioMin this, rng)
      | UniRatio \<Rightarrow>
          if m_cropRatioMin this = m_cropRatioMax this then Inr (m_cropRatioMin this, rng)
          else
            let (ratio, rng1) = UniRealT lib (m_cropRatioMin this) (m_cropRatioMax this) rng
            in if assert_fails NDEBUG (m_cropRatioMin this \<le> ratio \<and> ratio < m_cropRatioMax this)
               then Inl AssertionFailed else Inr (ratio, rng1)
      | _ \<Rightarrow> Inl (RuntimeError ''Jitter type currently not implemented.''))"

text \<open>The crop transformer as the base class calls it: the image alone.\<close>

definition SlimCropTransformer_Apply_virtual ::
  "bool \<Rightarrow> 'g stdlib \<Rightarrow> SlimCropTransformer \<Rightarrow> nat \<Rightarrow> 'a Mat \<Rightarrow> 'g list \<Rightarrow>
     (error + 'a Mat) \<times> 'g list" where
  "SlimCropTransformer_Apply_virtual NDEBUG lib this sid mat m_rngs =
     (case SlimCropTransformer_Apply NDEBUG lib this sid mat m_rngs of
        (Inl e, p) \<Rightarrow> (Inl e, p)
      | (Inr (mat', _), p) \<Rightarrow> (Inr mat', p))"

subsection \<open>The scale transformer\<close>

definition INTER_NEAREST :: int where "INTER_NEAREST = 0"
definition INTER_LINEAR :: int where "INTER_LINEAR = 1"
definition INTER_CUBIC :: int where "INTER_CUBIC = 2"
definition INTER_LANCZOS4 :: int where "INTER_LANCZOS4 = 4"

definition m_interpMap :: "string \<rightharpoonup> int" where
  "m_interpMap =
     [''nearest'' \<mapsto> INTER_NEAREST, ''linear'' \<mapsto> INTER_LINEAR,
      ''cubic'' \<mapsto> INTER_CUBIC, ''lanczos'' \<mapsto> INTER_LANCZOS4]"

text \<open>
  The loop \<^verbatim>\<open>for (token; std::getline(ss, token, ':');)\<close>: the tokens between colons. A
  read at the end of the input that extracts nothing fails and ends the loop. The first
  argument is the token read so far, reversed.
\<close>

fun getline_tokens :: "string \<Rightarrow> string \<Rightarrow> string list" where
  "getline_tokens cur [] = (if cur = [] then [] else [rev cur])"
| "getline_tokens cur (c # cs) =
     (if c = CHR '':'' then rev cur # getline_tokens [] cs else getline_tokens (c # cur) cs)"

fun parse_interp :: "string list \<Rightarrow> int list" where
  "parse_interp [] = []"
| "parse_interp (token # rest) =
     (case m_interpMap (map tolower token) of
        None \<Rightarrow> parse_interp rest
      | Some v \<Rightarrow> v # parse_interp rest)"

record SlimScaleTransformer = SlimImageTransformerBase +
  m_imgWidth :: nat
  m_imgHeight :: nat
  m_imgChannels :: nat
  m_interp :: "int list"

text \<open>The product of the three \<^verbatim>\<open>size_t\<close> dimensions wraps at \<open>2 ^ 64\<close>.\<close>

definition SlimScaleTransformer_ctor ::
  "ConfigParameters \<Rightarrow> SlimScaleTransformer \<Rightarrow> error + SlimScaleTransformer" where
  "SlimScaleTransformer_ctor config this0 =
     (let this = SlimImageTransformerBase_ctor config this0;
          t1 = this \<lparr> m_imgWidth := cfg_width config, m_imgHeight := cfg_height config,
                      m_imgChannels := cfg_channels config \<rparr>;
          cfeat = (m_imgWidth t1 * m_imgHeight t1 * m_imgChannels t1) mod 2 ^ 64
      in
      if cfeat = 0 \<or> cfeat > (2 ^ 64 - 1) div 2 then Inl (RuntimeError ''Invalid image dimensions.'')
      else
        let found = parse_interp (getline_tokens []
                      (case cfg_interpolations config of None \<Rightarrow> [] | Some v \<Rightarrow> v))
        in Inr (t1 \<lparr> m_interp := (if length found = 0 then [INTER_LINEAR] else found) \<rparr>))"

text \<open>
  \<^verbatim>\<open>Apply\<close> draws the index of the interpolation before it asserts that there is one. The
  constructor leaves \<open>m_interp\<close> non-empty. For an empty \<open>m_interp\<close> and the assertions
  compiled out the source reads outside the vector, which is undefined; the model
  leaves that element unspecified.
\<close>

definition SlimScaleTransformer_Apply ::
  "bool \<Rightarrow> 'a cvlib \<Rightarrow> 'g stdlib \<Rightarrow> SlimScaleTransformer \<Rightarrow> nat \<Rightarrow> 'a Mat \<Rightarrow> 'g list \<Rightarrow>
     (error + 'a Mat) \<times> 'g list" where
  "SlimScaleTransformer_Apply NDEBUG cv lib this sid mat m_rngs =
     (let mat1 =
            (if Mat_type mat \<noteq> CV_MAKETYPE (m_imageElementType this) (int (m_imgChannels this))
             then convertTo cv mat (m_imageElementType this) else mat);
          seed = m_seed this;
          (rng, pool) = pop_or_create (\<lambda>_. mt19937 lib seed) m_rngs;
          (index, rng1) = UniIntT lib 0 (int (length (m_interp this)) - 1) rng
      in
      if assert_fails NDEBUG (length (m_interp this) > 0) then (Inl AssertionFailed, pool)
      else
        case cv_resize cv mat1 (int_of_size_t (m_imgWidth this)) (int_of_size_t (m_imgHeight this))
               (m_interp this ! nat index) of
          Inl e \<Rightarrow> (Inl e, pool)
        | Inr mat2 \<Rightarrow> (Inr mat2, push rng1 pool))"

subsection \<open>The mean transformer\<close>

text \<open>
  The mean image is read from a file by the constructor; the model takes the loaded
  image as given. An absent mean image is the empty image, of size \<open>(0, 0)\<close>.
\<close>

record 'a SlimMeanTransformer = SlimImageTransformerBase +
  m_meanImg :: "'a Mat"

definition SlimMeanTransformer_Apply ::
  "bool \<Rightarrow> ('a::minus) SlimMeanTransformer \<Rightarrow> nat \<Rightarrow> 'a Mat \<Rightarrow> error + 'a Mat" where
  "SlimMeanTransformer_Apply NDEBUG this sid mat =
     (if assert_fails NDEBUG
           (Mat_size (m_meanImg this) = (0, 0) \<or>
            (Mat_size (m_meanImg this) = Mat_size mat \<and>
             channels (m_meanImg this) = channels mat))
      then Inl AssertionFailed
      else if Mat_size (m_meanImg this) = Mat_size mat
      then cv_subtract mat (m_meanImg this)
      else Inr mat)"

subsection \<open>The transpose transformer\<close>

record SlimTransposeTransformer =
  m_inputStream_T :: StreamDescription
  m_outputStream_T :: StreamDescription

definition SlimTransposeTransformer_Transform ::
  "SlimTransposeTransformer \<Rightarrow> StreamDescription \<Rightarrow>
     (error + StreamDescription) \<times> SlimTransposeTransformer" where
  "SlimTransposeTransformer_Transform this inputStream =
     (let t1 = this \<lparr> m_inputStream_T := inputStream \<rparr>;
          dimensions = ImageDimensions_of (m_sampleLayout (m_inputStream_T t1)) HWC;
          t2 = t1 \<lparr> m_outputStream_T := m_inputStream_T t1 \<rparr>;
          t3 = t2 \<lparr> m_outputStream_T :=
                      (m_outputStream_T t2) \<lparr> m_sampleLayout := AsTensorShape dimensions CHW \<rparr> \<rparr>
      in
      if m_storageType (m_inputStream_T t3) \<noteq> dense
        then (Inl (LogicError ''Transpose transformer supports only dense streams.''), t3)
      else (Inr (m_outputStream_T t3), t3))"

text \<open>
  The two nested loops of \<^verbatim>\<open>TypedApply\<close>: for every \<open>irow\<close> and every \<open>icol\<close>,
  \<^verbatim>\<open>dst[icol * rowCount + irow] = src[irow * channelCount + icol]\<close>.
\<close>

definition TypedApply_loop :: "nat \<Rightarrow> nat \<Rightarrow> 'a list \<Rightarrow> 'a list \<Rightarrow> 'a list" where
  "TypedApply_loop rowCount channelCount src dst0 =
     fold (\<lambda>irow dst.
             fold (\<lambda>icol dst. dst [icol * rowCount + irow := src ! (irow * channelCount + icol)])
                  [0 ..< channelCount] dst)
          [0 ..< rowCount] dst0"

text \<open>
  \<^verbatim>\<open>TypedApply\<close>. The fresh buffer of \<open>count\<close> zero bytes holds as many elements as the
  sample layout of the stream has; the sizes are natural numbers (a buffer that exists
  has fewer than \<open>2 ^ 64\<close> bytes). The source reads \<open>rowCount * channelCount\<close> elements of
  the input, which must be there.
\<close>

definition TypedApply ::
  "bool \<Rightarrow> SlimTransposeTransformer \<Rightarrow> ('a::zero) DenseSequenceData \<Rightarrow>
     error + 'a DenseSequenceData" where
  "TypedApply NDEBUG this inputSequence =
     (if assert_fails NDEBUG (m_numberOfSamples inputSequence = 1) then Inl AssertionFailed
      else
        let dst0 = replicate (GetNumElements (m_sampleLayout (m_inputStream_T this))) 0;
            dimensions = ImageDimensions_of (m_sampleLayout (m_inputStream_T this)) HWC;
            rowCount = m_height dimensions * m_width dimensions;
            channelCount = m_numChannels dimensions;
            dst = TypedApply_loop rowCount channelCount (m_data inputSequence) dst0
        in Inr \<lparr> m_id = 0, m_data = dst,
                 m_numberOfSamples = m_numberOfSamples inputSequence,
                 m_sampleLayout_seq = m_sampleLayout (m_outputStream_T this) \<rparr>)"

definition SlimTransposeTransformer_Transform_seq ::
  "bool \<Rightarrow> SlimTransposeTransformer \<Rightarrow> ('a::zero) DenseSequenceData \<Rightarrow>
     error + 'a DenseSequenceData" where
  "SlimTransposeTransformer_Transform_seq NDEBUG this sequence =
     (if m_elementType (m_inputStream_T this) = tdouble then TypedApply NDEBUG this sequence
      else if m_elementType (m_inputStream_T this) = tfloat then TypedApply NDEBUG this sequence
      else Inl (RuntimeError ''Unsupported type''))"

text \<open>
  The inverse mapping, in the words of the specification: the element at planar offset
  \<open>c * (rows * cols) + p\<close> goes back to interleaved offset \<open>p * channelCount + c\<close>.
\<close>

definition planar_to_interleaved :: "nat \<Rightarrow> nat \<Rightarrow> 'a list \<Rightarrow> 'a list" where
  "planar_to_interleaved rowCount channelCount planar =
     map (\<lambda>i. planar ! ((i mod channelCount) * rowCount + i div channelCount))
         [0 ..< rowCount * channelCount]"

subsection \<open>The pipeline around one transformer\<close>

text \<open>
  Modelled from the spec: the pipeline that drives the transformers is not among the
  sources. It calls the negotiation once per stream and then, for every sample, the
  per-sample transformation; an error raised by either ends the run.
\<close>

fun process_samples ::
  "('x \<Rightarrow> 'p \<Rightarrow> (error + 'y) \<times> 'p) \<Rightarrow> 'x list \<Rightarrow> 'p \<Rightarrow> error + 'y list" where
  "process_samples f [] p = Inr []"
| "process_samples f (x # xs) p =
     (case f x p of
        (Inl e, p') \<Rightarrow> Inl e
      | (Inr y, p') \<Rightarrow>
          (case process_samples f xs p' of Inl e \<Rightarrow> Inl e | Inr ys \<Rightarrow> Inr (y # ys)))"

definition process_stream ::
  "('t \<Rightarrow> StreamDescription \<Rightarrow> (error + StreamDescription) \<times> 't) \<Rightarrow>
   ('t \<Rightarrow> 'x \<Rightarrow> 'p \<Rightarrow> (error + 'y) \<times> 'p) \<Rightarrow>
   't \<Rightarrow> StreamDescription \<Rightarrow> 'x list \<Rightarrow> 'p \<Rightarrow> error + (StreamDescription \<times> 'y list)" where
  "process_stream negotiate transform this inputStream samples p =
     (case negotiate this inputStream of
        (Inl e, this') \<Rightarrow> Inl e
      | (Inr outputStream, this') \<Rightarrow>
          (case process_samples (transform this') samples p of
             Inl e \<Rightarrow> Inl e
           | Inr ys \<Rightarrow> Inr (outputStream, ys)))"

subsection \<open>Values to run the model on\<close>

text \<open>
  The configuration with every optional key absent, and objects as they are before a
  constructor runs. The theorems hold for every object; the examples start from these.
\<close>

definition default_config :: ConfigParameters where
  "default_config =
     \<lparr> cfg_seed = None, cfg_cropType = None, cfg_cropRatio = None, cfg_jitterType = None,
       cfg_hflip = None, cfg_width = 2, cfg_height = 2, cfg_channels = 3,
       cfg_interpolations = None \<rparr>"

definition blank_stream :: StreamDescription where
  "blank_stream =
     \<lparr> m_storageType = dense, m_elementType = tfloat, m_sampleLayout = TensorShape 0 0 0 \<rparr>"

definition blank_crop :: SlimCropTransformer where
  "blank_crop =
     \<lparr> m_seed = 0, m_imageElementType = 0, m_inputStream = blank_stream,
       m_outputStream = blank_stream, m_cropType = Center, m_cropRatioMin = 0,
       m_cropRatioMax = 0, m_jitterType = JNone, m_hFlip = False \<rparr>"

definition blank_scale :: SlimScaleTransformer where
  "blank_scale =
     \<lparr> m_seed = 0, m_imageElementType = 0, m_inputStream = blank_stream,
       m_outputStream = blank_stream, m_imgWidth = 0, m_imgHeight = 0, m_imgChannels = 0,
       m_interp = [] \<rparr>"

definition blank_transpose :: SlimTransposeTransformer where
  "blank_transpose = \<lparr> m_inputStream_T = blank_stream, m_outputStream_T = blank_stream \<rparr>"

text \<open>Two small one-channel images, and three crop transformers in \<open>MultiView10\<close> mode.\<close>

definition image_2x2 :: "nat Mat" where
  "image_2x2 = \<lparr> rows = 2, cols = 2, depth = 5, channels = 1, elems = [1, 2, 3, 4] \<rparr>"

definition image_5x5 :: "nat Mat" where
  "image_5x5 = \<lparr> rows = 5, cols = 5, depth = 5, channels = 1, elems = [0 ..< 25] \<rparr>"

definition multiview_plain :: SlimCropTransformer where
  "multiview_plain =
     blank_crop \<lparr> m_cropType := MultiView10, m_cropRatioMin := 1, m_cropRatioMax := 1 \<rparr>"

definition multiview_hflip :: SlimCropTransformer where
  "multiview_hflip = multiview_plain \<lparr> m_hFlip := True \<rparr>"

definition multiview_jitter :: SlimCropTransformer where
  "multiview_jitter = multiview_plain \<lparr> m_cropRatioMin := 1 / 2, m_jitterType := UniRatio \<rparr>"

text \<open>A mean transformer holding a given mean image, and images of integers to try it on.\<close>

definition mean_transformer :: "'a Mat \<Rightarrow> 'a SlimMeanTransformer" where
  "mean_transformer img =
     \<lparr> m_seed = 0, m_imageElementType = CV_32F, m_inputStream = blank_stream,
       m_outputStream = blank_stream, m_meanImg = img \<rparr>"

definition mean_1x1 :: "int Mat" where
  "mean_1x1 = \<lparr> rows = 1, cols = 1, depth = 5, channels = 1, elems = [7] \<rparr>"

definition mean_2x2 :: "int Mat" where
  "mean_2x2 = \<lparr> rows = 2, cols = 2, depth = 5, channels = 1, elems = [1, 2, 3, 4] \<rparr>"

definition mean_absent :: "int Mat" where
  "mean_absent = \<lparr> rows = 0, cols = 0, depth = 0, channels = 1, elems = [] \<rparr>"

definition sample_2x2 :: "int Mat" where
  "sample_2x2 = \<lparr> rows = 2, cols = 2, depth = 5, channels = 1, elems = [10, 20, 30, 40] \<rparr>"

text \<open>
  Streams of \<open>2 \<times> 2\<close> images with three channels: one of an element type that is neither
  \<^verbatim>\<open>float\<close> nor \<^verbatim>\<open>double\<close>, one that is not dense, one of \<^verbatim>\<open>float\<close>; and a sample of the first.
\<close>

definition atom_stream :: StreamDescription where
  "atom_stream =
     \<lparr> m_storageType = dense, m_elementType = tatom, m_sampleLayout = TensorShape 3 2 2 \<rparr>"

definition sparse_stream :: StreamDescription where
  "sparse_stream =
     \<lparr> m_storageType = sparse_csc, m_elementType = tfloat, m_sampleLayout = TensorShape 3 2 2 \<rparr>"

definition float_stream :: StreamDescription where
  "float_stream =
     \<lparr> m_storageType = dense, m_elementType = tfloat, m_sampleLayout = TensorShape 3 2 2 \<rparr>"

definition sample_3x2x2 :: "nat DenseSequenceData" where
  "sample_3x2x2 =
     \<lparr> m_id = 5, m_data = [0 ..< 12], m_numberOfSamples = 1,
       m_sampleLayout_seq = TensorShape 3 2 2 \<rparr>"

text \<open>
  Numeric kernels to run the scale transformer on (they keep a converted element and
  fill a resized image with zeros), and a sample of \<open>4 \<times> 4\<close> pixels with one channel.
\<close>

definition plain_cv :: "nat cvlib" where
  "plain_cv =
     \<lparr> cv_convert = (\<lambda>from to v. v),
       cv_resample = (\<lambda>m w h interp. replicate (nat (w * h * channels m)) 0) \<rparr>"

definition sample_1x4x4 :: "nat DenseSequenceData" where
  "sample_1x4x4 =
     \<lparr> m_id = 0, m_data = [0 ..< 16], m_numberOfSamples = 1,
       m_sampleLayout_seq = TensorShape 1 4 4 \<rparr>"

text \<open>
  The scale transformer that the default configuration (target \<open>2 \<times> 2\<close>, three channels)
  and the negotiation of a stream of \<^verbatim>\<open>float\<close> produce.
\<close>

definition scale_2x2x3 :: SlimScaleTransformer where
  "scale_2x2x3 =
     blank_scale \<lparr> m_imageElementType := CV_32F, m_inputStream := float_stream,
       m_outputStream := float_stream, m_imgWidth := 2, m_imgHeight := 2, m_imgChannels := 3,
       m_interp := [INTER_LINEAR] \<rparr>"

text \<open>The double nearest to \<open>0.7\<close>: \<open>3152519739159347 / 2 ^ 52\<close>.\<close>

definition double_0_7 :: real where
  "double_0_7 = 3152519739159347 / 4503599627370496"

text \<open>
  Further crop transformers in \<open>MultiView10\<close> mode: one with the fixed ratio \<open>0.5\<close>, and one
  with \<open>UniRatio\<close> jitter between \<open>0.5\<close> and \<open>1\<close> and the horizontal flip enabled.
\<close>

definition multiview_half :: SlimCropTransformer where
  "multiview_half = multiview_plain \<lparr> m_cropRatioMin := 1 / 2, m_cropRatioMax := 1 / 2 \<rparr>"

definition multiview_hflip_jitter :: SlimCropTransformer where
  "multiview_hflip_jitter = multiview_jitter \<lparr> m_hFlip := True \<rparr>"

section \<open>Properties\<close>

subsection \<open>Assertions\<close>

lemma assert_fails_simps [simp]:
  "\<not> assert_fails NDEBUG True" "\<not> assert_fails True cond"
  "assert_fails False cond \<longleftrightarrow> \<not> cond"
  by (simp_all add: assert_fails_def)

subsection \<open>Double-precision rounding\<close>

lemma bit_length_le: "n < 2 ^ k \<Longrightarrow> bit_length n \<le> k"
proof (induction n arbitrary: k rule: bit_length.induct)
  case (1 n)
  show ?case
  proof (cases "n = 0")
    case True
    then show ?thesis by (simp add: bit_length.simps)
  next
    case False
    with "1.prems" obtain j where k: "k = Suc j" by (cases k) simp_all
    with "1.prems" have "n div 2 < 2 ^ j" by simp
    with False have "bit_length (n div 2) \<le> j" by (rule "1.IH")
    with False k show ?thesis by (simp add: bit_length.simps [of n])
  qed
qed

lemma pow2_pos: "0 < pow2 e"
  unfolding pow2_def by simp

lemma pow2_nonpos: "e \<le> 0 \<Longrightarrow> pow2 e = 1 / 2 ^ nat (- e)"
  unfolding pow2_def by (cases "e = 0") simp_all

lemma ilog2_le: "0 < x \<Longrightarrow> x < 2 ^ 53 \<Longrightarrow> ilog2 x \<le> 52"
proof -
  assume x: "0 < x" "x < 2 ^ 53"
  show ?thesis
  proof (cases "1 \<le> x")
    case True
    have "real_of_int \<lfloor>x\<rfloor> \<le> x" by simp
    with x(2) have "real_of_int \<lfloor>x\<rfloor> < real_of_int (2 ^ 53)" by simp
    then have "\<lfloor>x\<rfloor> < 2 ^ 53" by (rule of_int_less_iff [THEN iffD1])
    moreover have "0 \<le> \<lfloor>x\<rfloor>" using True by simp
    ultimately have "nat \<lfloor>x\<rfloor> < 2 ^ 53" by (simp add: nat_less_iff)
    then have "bit_length (nat \<lfloor>x\<rfloor>) \<le> 53" by (rule bit_length_le)
    with True show ?thesis unfolding ilog2_def by simp
  next
    case False
    then show ?thesis unfolding ilog2_def by simp
  qed
qed

lemma round_half_even_bounds:
  "\<lfloor>y\<rfloor> \<le> round_half_even y" "round_half_even y \<le> \<lfloor>y\<rfloor> + 1"
  unfolding round_half_even_def Let_def by simp_all

lemma round_half_even_of_int: "round_half_even (real_of_int n) = n"
  unfolding round_half_even_def Let_def by simp

lemma round_half_even_le:
  assumes "y \<le> real_of_int n"
  shows "round_half_even y \<le> n"
proof (cases "\<lfloor>y\<rfloor> = n")
  case True
  then have "real_of_int n \<le> y" by (metis of_int_floor_le)
  with assms have "y = real_of_int n" by simp
  then show ?thesis by (simp add: round_half_even_of_int)
next
  case False
  from assms have "\<lfloor>y\<rfloor> \<le> n" by (simp add: floor_le_iff)
  with False have "\<lfloor>y\<rfloor> + 1 \<le> n" by simp
  with round_half_even_bounds(2) [of y] show ?thesis by simp
qed

lemma round_half_even_ge:
  assumes "real_of_int n \<le> y"
  shows "n \<le> round_half_even y"
proof -
  from assms have "n \<le> \<lfloor>y\<rfloor>" by (simp add: le_floor_iff)
  with round_half_even_bounds(1) [of y] show ?thesis by simp
qed

lemma double_round_nonneg: "0 \<le> x \<Longrightarrow> 0 \<le> double_round x"
proof -
  assume x: "0 \<le> x"
  have "0 \<le> round_half_even (\<bar>x\<bar> / pow2 e)" for e
    using round_half_even_ge [of 0 "\<bar>x\<bar> / pow2 e"] pow2_pos [of e] by simp
  with x show ?thesis
    unfolding double_round_def Let_def using pow2_pos by (simp add: sgn_if less_imp_le)
qed

text \<open>Rounding does not cross an integer (below \<open>2 ^ 53\<close>, every integer is a double).\<close>

lemma double_round_between:
  assumes x: "0 < x" "x < 2 ^ 53"
  shows "x \<le> real_of_int n \<Longrightarrow> double_round x \<le> real_of_int n"
    and "real_of_int n \<le> x \<Longrightarrow> real_of_int n \<le> double_round x"
proof -
  define e where "e = max (ilog2 \<bar>x\<bar> - 52) (- 1074)"
  define k where "k = nat (- e)"
  have "ilog2 \<bar>x\<bar> \<le> 52" using x by (simp add: ilog2_le)
  then have e0: "e \<le> 0" unfolding e_def by simp
  then have p: "pow2 e = 1 / 2 ^ k" unfolding k_def by (rule pow2_nonpos)
  have dr: "double_round x = real_of_int (round_half_even (x * 2 ^ k)) / 2 ^ k"
    unfolding double_round_def Let_def e_def [symmetric] p using x(1) by simp
  have n: "real_of_int n * 2 ^ k = real_of_int (n * 2 ^ k)" by simp
  {
    assume "x \<le> real_of_int n"
    then have "x * 2 ^ k \<le> real_of_int (n * 2 ^ k)" unfolding n [symmetric] by simp
    then have "round_half_even (x * 2 ^ k) \<le> n * 2 ^ k" by (rule round_half_even_le)
    then have "real_of_int (round_half_even (x * 2 ^ k)) \<le> real_of_int (n * 2 ^ k)"
      by (rule of_int_le_iff [THEN iffD2])
    then show "double_round x \<le> real_of_int n"
      unfolding dr n [symmetric] by (simp add: divide_le_eq)
  }
  {
    assume "real_of_int n \<le> x"
    then have "real_of_int (n * 2 ^ k) \<le> x * 2 ^ k" unfolding n [symmetric] by simp
    then have "n * 2 ^ k \<le> round_half_even (x * 2 ^ k)" by (rule round_half_even_ge)
    then have "real_of_int (n * 2 ^ k) \<le> real_of_int (round_half_even (x * 2 ^ k))"
      by (rule of_int_le_iff [THEN iffD2])
    then show "real_of_int n \<le> double_round x"
      unfolding dr n [symmetric] by (simp add: le_divide_eq)
  }
qed

text \<open>
  The model computes what the hardware does: \<open>0.7\<close> is stored as the double \<open>double_0_7\<close>,
  ten times that double is \<open>7\<close> in double precision (the exact product is just below \<open>7\<close>),
  and three times the double nearest to a third is \<open>1\<close>.
\<close>

lemma double_examples:
  "double_round (7 / 10) = double_0_7"
  "double_mul 10 double_0_7 = 7"
  "\<lfloor>10 * double_0_7\<rfloor> = 6"
  "double_mul 3 (double_round (1 / 3)) = 1"
  "double_mul 80 (1 / 2) = 40"
  "double_mul 5 (1 / 2) = 5 / 2"
  "double_mul 5 (5 / 8) = 25 / 8"
  "double_mul 4 (1 / 2) = 2"
  "double_mul 2 1 = 2"
  "double_mul 3 1 = 3"
  by (code_simp+)

subsection \<open>Arithmetic helpers\<close>

lemma cdiv_nonneg: "0 \<le> a \<Longrightarrow> 0 < b \<Longrightarrow> cdiv a b = a div b"
  by (cases "a = 0") (simp_all add: cdiv_def)

lemma cropSize_floor:
  "0 < m \<Longrightarrow> 0 < r \<Longrightarrow>
   static_cast_int (double_mul (real_of_int m) r) = \<lfloor>double_mul (real_of_int m) r\<rfloor>"
  unfolding static_cast_int_def double_mul_def by (simp add: double_round_nonneg)

text \<open>
  The crop size lies between \<open>0\<close> and the smaller side, and it is the integer part of the
  exact product or, when the double product rounds up to the next integer, one more.
\<close>

lemma cropSize_bounds:
  assumes "0 < m" "m < 2 ^ 31" "0 < r" "r \<le> 1"
  shows "0 \<le> \<lfloor>double_mul (real_of_int m) r\<rfloor>" "\<lfloor>double_mul (real_of_int m) r\<rfloor> \<le> m"
    "\<lfloor>real_of_int m * r\<rfloor> \<le> \<lfloor>double_mul (real_of_int m) r\<rfloor>"
    "\<lfloor>double_mul (real_of_int m) r\<rfloor> \<le> \<lfloor>real_of_int m * r\<rfloor> + 1"
proof -
  let ?x = "real_of_int m * r"
  have x0: "0 < ?x" using assms by simp
  have "?x \<le> real_of_int m * 1" using assms by (intro mult_left_mono) simp_all
  then have xm: "?x \<le> real_of_int m" by simp
  have "real_of_int m < real_of_int (2 ^ 31)" using assms(2) by (rule of_int_less_iff [THEN iffD2])
  then have "real_of_int m < 2 ^ 53" by simp
  with xm have x53: "?x < 2 ^ 53" by simp
  note b = double_round_between [OF x0 x53]
  show "0 \<le> \<lfloor>double_mul (real_of_int m) r\<rfloor>"
    unfolding double_mul_def using x0 by (simp add: double_round_nonneg)
  from b(1) [OF xm] show "\<lfloor>double_mul (real_of_int m) r\<rfloor> \<le> m"
    unfolding double_mul_def by (simp add: floor_le_iff)
  have "real_of_int \<lfloor>?x\<rfloor> \<le> ?x" by simp
  from b(2) [OF this] show "\<lfloor>?x\<rfloor> \<le> \<lfloor>double_mul (real_of_int m) r\<rfloor>"
    unfolding double_mul_def by (simp add: le_floor_iff)
  have "?x \<le> real_of_int (\<lfloor>?x\<rfloor> + 1)" by linarith
  from b(1) [OF this] show "\<lfloor>double_mul (real_of_int m) r\<rfloor> \<le> \<lfloor>?x\<rfloor> + 1"
    unfolding double_mul_def by (simp add: floor_le_iff)
qed

lemma cmod_cases:
  "0 \<le> v \<Longrightarrow> cmod v 5 \<in> {0,1,2,3,4}"
proof -
  assume a: "0 \<le> v"
  then have "cdiv v 5 = v div 5" by (simp add: cdiv_nonneg)
  then have "cmod v 5 = v mod 5" by (simp add: cmod_def minus_mult_div_eq_mod)
  moreover have "0 \<le> v mod 5" "v mod 5 < 5" by simp_all
  ultimately show ?thesis by auto
qed


lemma counter_lib_simps:
  "mt19937 counter_lib seed = seed"
  "UniIntT counter_lib a b g = (a + int g mod (b - a + 1), Suc g)"
  "UniRealT counter_lib x y g = (x + (y - x) * (real (g mod 4) / 4), Suc g)"
  "bernoulli_distribution counter_lib g = (even g, Suc g)"
  by (simp_all add: counter_lib_def)

lemma counter_lib_ok: "stdlib_ok counter_lib"
  unfolding stdlib_ok_def counter_lib_simps fst_conv
proof (intro conjI allI impI)
  fix a b :: int and g :: nat
  assume "a \<le> b"
  then have "0 < b - a + 1" by simp
  then have "0 \<le> int g mod (b - a + 1)" "int g mod (b - a + 1) < b - a + 1"
    by (rule pos_mod_sign, rule pos_mod_bound)
  then show "a \<le> a + int g mod (b - a + 1)" "a + int g mod (b - a + 1) \<le> b"
    by linarith+
next
  fix a b :: real and g :: nat
  assume ab: "a < b"
  have "g mod 4 < 4" by simp
  then have q: "0 \<le> real (g mod 4) / 4" "real (g mod 4) / 4 < 1" by simp_all
  have "(b - a) * (real (g mod 4) / 4) < (b - a) * 1"
    using ab q by (intro mult_strict_left_mono) simp_all
  moreover have "0 \<le> (b - a) * (real (g mod 4) / 4)" using ab q by simp
  ultimately show "a \<le> a + (b - a) * (real (g mod 4) / 4)"
    "a + (b - a) * (real (g mod 4) / 4) < b"
    by simp_all
qed

text \<open>
  When the view index is not negative, and, with assertions compiled in, is one of the
  strategy, \<^verbatim>\<open>GetCropRect\<close> returns a square of the crop size with offsets inside the image.
\<close>

lemma GetCropRect_value:
  assumes lib: "stdlib_ok lib"
    and pre: "0 < crow" "crow < 2 ^ 31" "0 < ccol" "ccol < 2 ^ 31" "0 < cropRatio" "cropRatio \<le> 1"
    and v: "type = MultiView10 \<longrightarrow> 0 \<le> viewIndex"
      "NDEBUG \<or> (if type = MultiView10 then viewIndex < 10 else viewIndex = 0)"
  shows "\<exists>xOff yOff g.
           GetCropRect NDEBUG lib type viewIndex crow ccol cropRatio rng =
             Inr (Rect xOff yOff \<lfloor>double_mul (real_of_int (min crow ccol)) cropRatio\<rfloor>
                       \<lfloor>double_mul (real_of_int (min crow ccol)) cropRatio\<rfloor>, g) \<and>
           0 \<le> xOff \<and> xOff \<le> ccol - \<lfloor>double_mul (real_of_int (min crow ccol)) cropRatio\<rfloor> \<and>
           0 \<le> yOff \<and> yOff \<le> crow - \<lfloor>double_mul (real_of_int (min crow ccol)) cropRatio\<rfloor>"
proof -
  define s where "s = \<lfloor>double_mul (real_of_int (min crow ccol)) cropRatio\<rfloor>"
  have m: "0 < min crow ccol" "min crow ccol < 2 ^ 31" using pre by simp_all
  have cs: "static_cast_int (double_mul (real_of_int (min crow ccol)) cropRatio) = s"
    unfolding s_def using m(1) pre(5) by (rule cropSize_floor)
  have s0: "0 \<le> s" and sm: "s \<le> min crow ccol"
    unfolding s_def using cropSize_bounds [OF m pre(5) pre(6)] by simp_all
  have dx: "0 \<le> ccol - s" and dy: "0 \<le> crow - s" using sm by simp_all
  have ctr: "0 \<le> (ccol - s) div 2" "(ccol - s) div 2 \<le> ccol - s"
      "0 \<le> (crow - s) div 2" "(crow - s) div 2 \<le> crow - s"
    using dx dy by simp_all
  have "\<exists>xOff yOff g.
           GetCropRect NDEBUG lib type viewIndex crow ccol cropRatio rng =
             Inr (Rect xOff yOff s s, g) \<and>
           0 \<le> xOff \<and> xOff \<le> ccol - s \<and> 0 \<le> yOff \<and> yOff \<le> crow - s"
  proof (cases type)
    case Center
    with v(2) have a: "\<not> assert_fails NDEBUG (viewIndex = 0)" by (auto simp: assert_fails_def)
    show ?thesis
      using pre dx dy ctr Center a
      by (simp add: GetCropRect_def cs cdiv_nonneg)
  next
    case Random
    with v(2) have a: "\<not> assert_fails NDEBUG (viewIndex = 0)" by (auto simp: assert_fails_def)
    obtain xo g1 where x: "UniIntT lib 0 (ccol - s) rng = (xo, g1)" by fastforce
    obtain yo g2 where y: "UniIntT lib 0 (crow - s) g1 = (yo, g2)" by fastforce
    have "0 \<le> xo \<and> xo \<le> ccol - s"
      using lib dx x unfolding stdlib_ok_def by (metis fst_conv)
    moreover have "0 \<le> yo \<and> yo \<le> crow - s"
      using lib dy y unfolding stdlib_ok_def by (metis fst_conv)
    ultimately show ?thesis
      using pre Random a x y by (simp add: GetCropRect_def cs)
  next
    case MultiView10
    with v have vr: "0 \<le> viewIndex" and a: "\<not> assert_fails NDEBUG (0 \<le> viewIndex \<and> viewIndex < 10)"
      by (auto simp: assert_fails_def)
    have c: "cmod viewIndex 5 \<in> {0,1,2,3,4}" using vr by (rule cmod_cases)
    have b: "\<not> assert_fails NDEBUG (0 < crow)" "\<not> assert_fails NDEBUG (0 < ccol)"
      "\<not> assert_fails NDEBUG (0 < cropRatio \<and> cropRatio \<le> 1)"
      "\<not> assert_fails NDEBUG (0 \<le> ccol - s)" "\<not> assert_fails NDEBUG (0 \<le> crow - s)"
      "\<not> assert_fails NDEBUG (0 \<le> (ccol - s) div 2 \<and> (ccol - s) div 2 \<le> ccol - s)"
      "\<not> assert_fails NDEBUG (0 \<le> (crow - s) div 2 \<and> (crow - s) div 2 \<le> crow - s)"
      using pre dx dy ctr by (simp_all add: assert_fails_def)
    have t: "\<not> assert_fails NDEBUG True" by (simp add: assert_fails_def)
    show ?thesis
      using MultiView10 a b t c dx dy ctr
      by (auto simp: GetCropRect_def cs cdiv_nonneg Let_def)
  qed
  then show ?thesis unfolding s_def .
qed


text \<open>
  A negative view index is not one of \<open>MultiView10\<close>, and the caller never passes one (it
  passes \<open>id mod 10\<close> of an unsigned identifier): without the assertions the source leaves
  the offsets at \<open>- 1\<close> for it.
\<close>

lemma GetCropRect_negative_view:
  "GetCropRect True lib MultiView10 (- 1) 2 2 1 rng = Inr (Rect (- 1) (- 1) 2 2, rng)"
  by (simp add: GetCropRect_def assert_fails_def static_cast_int_def double_examples
        cmod_def cdiv_def Let_def)

subsection \<open>C1: the crop rectangle lies inside the image\<close>



lemma GetCropRect_center:
  assumes pre: "0 < crow" "crow < 2 ^ 31" "0 < ccol" "ccol < 2 ^ 31" "0 < cropRatio" "cropRatio \<le> 1"
    and v: "type = Center \<and> viewIndex = 0 \<or> type = MultiView10 \<and> (viewIndex = 4 \<or> viewIndex = 9)"
  shows "GetCropRect NDEBUG lib type viewIndex crow ccol cropRatio rng =
           Inr (Rect ((ccol - \<lfloor>double_mul (real_of_int (min crow ccol)) cropRatio\<rfloor>) div 2)
                     ((crow - \<lfloor>double_mul (real_of_int (min crow ccol)) cropRatio\<rfloor>) div 2)
                     \<lfloor>double_mul (real_of_int (min crow ccol)) cropRatio\<rfloor>
                     \<lfloor>double_mul (real_of_int (min crow ccol)) cropRatio\<rfloor>, rng)"
proof -
  define s where "s = \<lfloor>double_mul (real_of_int (min crow ccol)) cropRatio\<rfloor>"
  have m: "0 < min crow ccol" "min crow ccol < 2 ^ 31" using pre by simp_all
  have cs: "static_cast_int (double_mul (real_of_int (min crow ccol)) cropRatio) = s"
    unfolding s_def using m(1) pre(5) by (rule cropSize_floor)
  have sm: "s \<le> min crow ccol"
    unfolding s_def using cropSize_bounds [OF m pre(5) pre(6)] by simp
  have dx: "0 \<le> ccol - s" and dy: "0 \<le> crow - s" using sm by simp_all
  have ctr: "0 \<le> (ccol - s) div 2" "(ccol - s) div 2 \<le> ccol - s"
      "0 \<le> (crow - s) div 2" "(crow - s) div 2 \<le> crow - s"
    using dx dy by simp_all
  have c4: "cmod 4 5 = 4" "cmod 9 5 = 4" by (simp_all add: cmod_def cdiv_def)
  have "GetCropRect NDEBUG lib type viewIndex crow ccol cropRatio rng =
           Inr (Rect ((ccol - s) div 2) ((crow - s) div 2) s s, rng)"
    using v pre dx dy ctr c4 by (auto simp: GetCropRect_def assert_fails_def cs cdiv_nonneg)
  then show ?thesis unfolding s_def .
qed

subsection \<open>C9: the offsets of the center crop\<close>

text \<open>
  Claim C9. For every image the offsets of the center crop are exactly
  \<open>xOff = (cols - size) div 2\<close> and \<open>yOff = (rows - size) div 2\<close>, by integer division, where
  \<open>size\<close> is the crop size, the integer part of the double-precision product of the
  smaller side and the ratio; in particular \<open>cols = 100\<close>, \<open>rows = 80\<close>, \<open>ratio = 0.5\<close> give
  \<open>size = 40\<close>, \<open>xOff = 30\<close>, \<open>yOff = 20\<close>. The same holds of the center views (4 and 9) of
  \<open>MultiView10\<close>, and in either build.
\<close>

theorem center_crop_offsets:
  "(0 < crow \<and> crow < 2 ^ 31 \<and> 0 < ccol \<and> ccol < 2 ^ 31 \<and> 0 < cropRatio \<and> cropRatio \<le> 1 \<and>
      (type = Center \<and> viewIndex = 0 \<or> type = MultiView10 \<and> (viewIndex = 4 \<or> viewIndex = 9)) \<longrightarrow>
      GetCropRect NDEBUG lib type viewIndex crow ccol cropRatio rng =
        Inr (Rect ((ccol - \<lfloor>double_mul (real_of_int (min crow ccol)) cropRatio\<rfloor>) div 2)
                  ((crow - \<lfloor>double_mul (real_of_int (min crow ccol)) cropRatio\<rfloor>) div 2)
                  \<lfloor>double_mul (real_of_int (min crow ccol)) cropRatio\<rfloor>
                  \<lfloor>double_mul (real_of_int (min crow ccol)) cropRatio\<rfloor>, rng)) \<and>
   GetCropRect NDEBUG lib Center 0 80 100 (1 / 2) rng = Inr (Rect 30 20 40 40, rng)"
proof -
  have "GetCropRect NDEBUG lib Center 0 80 100 (1 / 2) rng = Inr (Rect 30 20 40 40, rng)"
    using GetCropRect_center [of 80 100 "1 / 2" Center 0 NDEBUG lib rng]
    by (simp add: double_examples)
  then show ?thesis
    using GetCropRect_center [of crow ccol cropRatio type viewIndex NDEBUG lib rng] by blast
qed

theorem center_crop_offsets_witness:
  "(0::int) < 3 \<and> (3::int) < 2 ^ 31 \<and> (0::int) < 8 \<and> (8::int) < 2 ^ 31 \<and> (0::real) < 1 \<and>
   GetCropRect True counter_lib MultiView10 9 3 8 1 (0::nat) = Inr (Rect 2 0 3 3, 0) \<and>
   (0::real) < double_0_7 \<and> double_0_7 \<le> 1 \<and>
   GetCropRect False counter_lib Center 0 10 10 double_0_7 (0::nat) = Inr (Rect 1 1 7 7, 0)"
proof -
  have d: "(0::real) < double_0_7" "double_0_7 \<le> 1"
    by (simp_all add: double_0_7_def)
  have 1: "GetCropRect True counter_lib MultiView10 9 3 8 1 (0::nat) = Inr (Rect 2 0 3 3, 0)"
    using center_crop_offsets [of 3 8 1 MultiView10 9 True counter_lib 0]
    by (simp add: double_examples)
  have 2: "GetCropRect False counter_lib Center 0 10 10 double_0_7 (0::nat) = Inr (Rect 1 1 7 7, 0)"
    using center_crop_offsets [of 10 10 double_0_7 Center 0 False counter_lib 0] d
    by (simp add: double_examples)
  from d 1 2 show ?thesis by simp
qed

lemma tolower_literals:
  "map tolower ''center'' = ''center''" "map tolower ''random'' = ''random''"
  "map tolower ''multiview10'' = ''multiview10''" "map tolower ''none'' = ''none''"
  "map tolower ''uniratio'' = ''uniratio''" "map tolower ''unilength'' = ''unilength''"
  "map tolower ''uniarea'' = ''uniarea''"
  by (simp_all add: tolower_def)

lemma ParseCropType_cases:
  "ParseCropType src =
     (if src = [] \<or> map tolower src = ''center'' then Inr Center
      else if map tolower src = ''random'' then Inr Random
      else if map tolower src = ''multiview10'' then Inr MultiView10
      else Inl (RuntimeError (''Invalid crop type: '' @ src @ ''.'')))"
  unfolding ParseCropType_def AreEqualIgnoreCase_def tolower_literals ..

lemma ParseJitterType_cases:
  "ParseJitterType src =
     (if src = [] \<or> map tolower src = ''none'' then Inr JNone
      else if map tolower src = ''uniratio'' then Inr UniRatio
      else if map tolower src = ''unilength'' then Inr UniLength
      else if map tolower src = ''uniarea'' then Inr UniArea
      else Inl (RuntimeError (''Invalid jitter type: '' @ src @ ''.'')))"
  unfolding ParseJitterType_def AreEqualIgnoreCase_def tolower_literals ..

lemma ParseCropType_error:
  "(\<exists>e. ParseCropType src = Inl e) \<longleftrightarrow>
     src \<noteq> [] \<and> map tolower src \<notin> {''center'', ''random'', ''multiview10''}"
  unfolding ParseCropType_cases by simp

lemma ParseJitterType_error:
  "(\<exists>e. ParseJitterType src = Inl e) \<longleftrightarrow>
     src \<noteq> [] \<and> map tolower src \<notin> {''none'', ''uniratio'', ''unilength'', ''uniarea''}"
  unfolding ParseJitterType_cases by simp

lemma Parse_errors_Runtime:
  "ParseCropType src = Inl e \<Longrightarrow> e = RuntimeError (''Invalid crop type: '' @ src @ ''.'')"
  "ParseJitterType src = Inl e \<Longrightarrow> e = RuntimeError (''Invalid jitter type: '' @ src @ ''.'')"
  unfolding ParseCropType_cases ParseJitterType_cases by (simp_all split: if_splits)

subsection \<open>C7: construction of the crop transformer rejects bad configurations\<close>

text \<open>
  Claim C7. The construction of the crop transformer fails with a configuration error
  (a \<^verbatim>\<open>RuntimeError\<close>), and never yields a transformer, whenever the minimum or the
  maximum of the crop ratio lies outside \<open>(0, 1]\<close>, or the minimum exceeds the maximum,
  or the name of the crop strategy or of the jitter mode, compared without regard to
  case, is not one of the recognised names. The error for the strategy names the
  offending value. A name that is absent or empty is no name at all and selects the
  default (claim C10); construction succeeds exactly when none of the violations holds.
\<close>

theorem SlimCropTransformer_ctor_rejects:
  fixes config :: ConfigParameters and this :: SlimCropTransformer
  defines "cropType \<equiv> (case cfg_cropType config of None \<Rightarrow> [] | Some v \<Rightarrow> v)"
    and "jitterType \<equiv> (case cfg_jitterType config of None \<Rightarrow> [] | Some v \<Rightarrow> v)"
    and "cropRatioMin \<equiv> (case cfg_cropRatio config of None \<Rightarrow> 1 | Some v \<Rightarrow> fst v)"
    and "cropRatioMax \<equiv> (case cfg_cropRatio config of None \<Rightarrow> 1 | Some v \<Rightarrow> snd v)"
  shows "(cropType \<noteq> [] \<and> map tolower cropType \<notin> {''center'', ''random'', ''multiview10''} \<longrightarrow>
            SlimCropTransformer_ctor config this =
              Inl (RuntimeError (''Invalid crop type: '' @ cropType @ ''.''))) \<and>
         (\<not> (0 < cropRatioMin \<and> cropRatioMin \<le> 1) \<or> \<not> (0 < cropRatioMax \<and> cropRatioMax \<le> 1) \<or>
            cropRatioMax < cropRatioMin \<longrightarrow>
            (\<exists>msg. SlimCropTransformer_ctor config this = Inl (RuntimeError msg))) \<and>
         (jitterType \<noteq> [] \<and>
            map tolower jitterType \<notin> {''none'', ''uniratio'', ''unilength'', ''uniarea''} \<longrightarrow>
            (\<exists>msg. SlimCropTransformer_ctor config this = Inl (RuntimeError msg))) \<and>
         ((\<exists>t. SlimCropTransformer_ctor config this = Inr t) \<longleftrightarrow>
            (cropType = [] \<or> map tolower cropType \<in> {''center'', ''random'', ''multiview10''}) \<and>
            0 < cropRatioMin \<and> cropRatioMin \<le> cropRatioMax \<and> cropRatioMax \<le> 1 \<and>
            (jitterType = [] \<or>
               map tolower jitterType \<in> {''none'', ''uniratio'', ''unilength'', ''uniarea''}))"
proof -
  define badC where "badC \<longleftrightarrow> cropType \<noteq> [] \<and> map tolower cropType \<notin> {''center'', ''random'', ''multiview10''}"
  define badJ where "badJ \<longleftrightarrow> jitterType \<noteq> [] \<and>
     map tolower jitterType \<notin> {''none'', ''uniratio'', ''unilength'', ''uniarea''}"
  define badR where "badR \<longleftrightarrow> \<not> (0 < cropRatioMin \<and> cropRatioMin \<le> 1) \<or>
     \<not> (0 < cropRatioMax \<and> cropRatioMax \<le> 1) \<or> cropRatioMax < cropRatioMin"
  have r: "fst (case cfg_cropRatio config of None \<Rightarrow> (1, 1) | Some v \<Rightarrow> v) = cropRatioMin"
     "snd (case cfg_cropRatio config of None \<Rightarrow> (1, 1) | Some v \<Rightarrow> v) = cropRatioMax"
    unfolding cropRatioMin_def cropRatioMax_def by (simp_all split: option.splits)
  have pc: "(\<exists>e. ParseCropType cropType = Inl e) \<longleftrightarrow> badC"
    unfolding badC_def by (rule ParseCropType_error)
  have pj: "(\<exists>e. ParseJitterType jitterType = Inl e) \<longleftrightarrow> badJ"
    unfolding badJ_def by (rule ParseJitterType_error)
  have A: "SlimCropTransformer_ctor config this =
             Inl (RuntimeError (''Invalid crop type: '' @ cropType @ ''.''))" if badC
  proof -
    from that pc obtain e where e: "ParseCropType cropType = Inl e" by blast
    then have "e = RuntimeError (''Invalid crop type: '' @ cropType @ ''.'')"
      by (rule Parse_errors_Runtime)
    with e show ?thesis
      unfolding SlimCropTransformer_ctor_def Let_def cropType_def by simp
  qed
  have B: "SlimCropTransformer_ctor config this = Inl (RuntimeError
             ''Invalid cropRatio value, must be > 0 and <= 1. cropMin must <= cropMax'')"
    if "\<not> badC" badR
  proof -
    from that pc obtain ct where "ParseCropType cropType = Inr ct"
      by (metis sum.exhaust)
    with \<open>badR\<close> show ?thesis
      unfolding SlimCropTransformer_ctor_def Let_def cropType_def badR_def
      by (simp add: r)
  qed
  have C: "SlimCropTransformer_ctor config this =
             Inl (RuntimeError (''Invalid jitter type: '' @ jitterType @ ''.''))"
    if "\<not> badC" "\<not> badR" badJ
  proof -
    from that pc obtain ct where ct: "ParseCropType cropType = Inr ct"
      by (metis sum.exhaust)
    from that pj obtain e where e: "ParseJitterType jitterType = Inl e" by blast
    then have "e = RuntimeError (''Invalid jitter type: '' @ jitterType @ ''.'')"
      by (rule Parse_errors_Runtime)
    with e ct \<open>\<not> badR\<close> show ?thesis
      unfolding SlimCropTransformer_ctor_def Let_def cropType_def jitterType_def badR_def
      by (simp add: r)
  qed
  have D: "\<exists>t. SlimCropTransformer_ctor config this = Inr t"
    if "\<not> badC" "\<not> badR" "\<not> badJ"
  proof -
    from that pc obtain ct where ct: "ParseCropType cropType = Inr ct"
      by (metis sum.exhaust)
    from that pj obtain jt where jt: "ParseJitterType jitterType = Inr jt"
      by (metis sum.exhaust)
    from ct jt \<open>\<not> badR\<close> show ?thesis
      unfolding SlimCropTransformer_ctor_def Let_def cropType_def jitterType_def badR_def
      by (simp add: r split: option.splits)
  qed
  have fails: "\<exists>msg. SlimCropTransformer_ctor config this = Inl (RuntimeError msg)"
    if "badC \<or> badR \<or> badJ"
    using that A B C by blast
  have iff: "(\<exists>t. SlimCropTransformer_ctor config this = Inr t) \<longleftrightarrow> \<not> badC \<and> \<not> badR \<and> \<not> badJ"
    using fails D by (metis Inl_Inr_False)
  have nC: "\<not> badC \<longleftrightarrow>
      (cropType = [] \<or> map tolower cropType \<in> {''center'', ''random'', ''multiview10''})"
    unfolding badC_def by blast
  have nJ: "\<not> badJ \<longleftrightarrow>
      (jitterType = [] \<or> map tolower jitterType \<in> {''none'', ''uniratio'', ''unilength'', ''uniarea''})"
    unfolding badJ_def by blast
  have nR: "\<not> badR \<longleftrightarrow> 0 < cropRatioMin \<and> cropRatioMin \<le> cropRatioMax \<and> cropRatioMax \<le> 1"
    unfolding badR_def by linarith
  have c1: "badC \<longrightarrow> SlimCropTransformer_ctor config this =
              Inl (RuntimeError (''Invalid crop type: '' @ cropType @ ''.''))"
    using A by blast
  have c2: "badR \<longrightarrow> (\<exists>msg. SlimCropTransformer_ctor config this = Inl (RuntimeError msg))"
    using fails by blast
  have c3: "badJ \<longrightarrow> (\<exists>msg. SlimCropTransformer_ctor config this = Inl (RuntimeError msg))"
    using fails by blast
  have c4: "(\<exists>t. SlimCropTransformer_ctor config this = Inr t) \<longleftrightarrow>
      (cropType = [] \<or> map tolower cropType \<in> {''center'', ''random'', ''multiview10''}) \<and>
      0 < cropRatioMin \<and> cropRatioMin \<le> cropRatioMax \<and> cropRatioMax \<le> 1 \<and>
      (jitterType = [] \<or> map tolower jitterType \<in> {''none'', ''uniratio'', ''unilength'', ''uniarea''})"
    unfolding iff nC nJ nR by (simp only: conj_assoc)
  from c1 c2 c3 c4 show ?thesis
    unfolding badC_def badJ_def badR_def by (intro conjI)
qed

theorem SlimCropTransformer_ctor_rejects_witness:
  "SlimCropTransformer_ctor (default_config \<lparr> cfg_cropType := Some ''Diagonal'' \<rparr>) blank_crop =
     Inl (RuntimeError ''Invalid crop type: Diagonal.'') \<and>
   (\<exists>msg. SlimCropTransformer_ctor (default_config \<lparr> cfg_cropRatio := Some (0, 1) \<rparr>) blank_crop =
     Inl (RuntimeError msg)) \<and>
   (\<exists>msg. SlimCropTransformer_ctor (default_config \<lparr> cfg_cropRatio := Some (1, 3 / 2) \<rparr>) blank_crop =
     Inl (RuntimeError msg)) \<and>
   (\<exists>msg. SlimCropTransformer_ctor (default_config \<lparr> cfg_jitterType := Some ''Gauss'' \<rparr>) blank_crop =
     Inl (RuntimeError msg)) \<and>
   (\<exists>t. SlimCropTransformer_ctor (default_config \<lparr> cfg_cropType := Some ''RANDOM'',
        cfg_cropRatio := Some (1 / 2, 1), cfg_jitterType := Some ''UniRatio'' \<rparr>) blank_crop = Inr t)"
proof -
  have 1: "SlimCropTransformer_ctor (default_config \<lparr> cfg_cropType := Some ''Diagonal'' \<rparr>) blank_crop =
     Inl (RuntimeError ''Invalid crop type: Diagonal.'')"
    using SlimCropTransformer_ctor_rejects
            [of "default_config \<lparr> cfg_cropType := Some ''Diagonal'' \<rparr>" blank_crop]
    by (simp add: default_config_def tolower_def)
  have 2: "\<exists>msg. SlimCropTransformer_ctor (default_config \<lparr> cfg_cropRatio := Some (0, 1) \<rparr>) blank_crop =
     Inl (RuntimeError msg)"
    using SlimCropTransformer_ctor_rejects
            [of "default_config \<lparr> cfg_cropRatio := Some (0, 1) \<rparr>" blank_crop]
    by (simp add: default_config_def)
  have 3: "\<exists>msg. SlimCropTransformer_ctor (default_config \<lparr> cfg_cropRatio := Some (1, 3 / 2) \<rparr>) blank_crop =
     Inl (RuntimeError msg)"
    using SlimCropTransformer_ctor_rejects
            [of "default_config \<lparr> cfg_cropRatio := Some (1, 3 / 2) \<rparr>" blank_crop]
    by (simp add: default_config_def)
  have 4: "\<exists>msg. SlimCropTransformer_ctor (default_config \<lparr> cfg_jitterType := Some ''Gauss'' \<rparr>) blank_crop =
     Inl (RuntimeError msg)"
    using SlimCropTransformer_ctor_rejects
            [of "default_config \<lparr> cfg_jitterType := Some ''Gauss'' \<rparr>" blank_crop]
    by (simp add: default_config_def tolower_def)
  have 5: "\<exists>t. SlimCropTransformer_ctor (default_config \<lparr> cfg_cropType := Some ''RANDOM'',
        cfg_cropRatio := Some (1 / 2, 1), cfg_jitterType := Some ''UniRatio'' \<rparr>) blank_crop = Inr t"
    using SlimCropTransformer_ctor_rejects
            [of "default_config \<lparr> cfg_cropType := Some ''RANDOM'',
        cfg_cropRatio := Some (1 / 2, 1), cfg_jitterType := Some ''UniRatio'' \<rparr>" blank_crop]
    by (simp add: default_config_def tolower_def)
  from 1 2 3 4 5 show ?thesis by (intro conjI)
qed

subsection \<open>C10: the empty name selects the default\<close>

text \<open>
  Claim C10. The empty strategy name parses to \<open>Center\<close> and the empty jitter name to
  \<open>None\<close>: with both names empty or absent and a valid crop ratio, construction succeeds
  and yields the \<open>Center\<close> strategy without jitter.
\<close>

theorem empty_names_are_defaults:
  fixes config :: ConfigParameters and this :: SlimCropTransformer
  assumes "cfg_cropType config = None \<or> cfg_cropType config = Some []"
    and "cfg_jitterType config = None \<or> cfg_jitterType config = Some []"
    and "case cfg_cropRatio config of None \<Rightarrow> True
         | Some (lo, hi) \<Rightarrow> 0 < lo \<and> lo \<le> hi \<and> hi \<le> 1"
  shows "ParseCropType [] = Inr Center \<and> ParseJitterType [] = Inr JNone \<and>
         (\<exists>t. SlimCropTransformer_ctor config this = Inr t \<and>
              m_cropType t = Center \<and> m_jitterType t = JNone)"
proof -
  have p: "ParseCropType [] = Inr Center" "ParseJitterType [] = Inr JNone"
    by (simp_all add: ParseCropType_def ParseJitterType_def)
  have c: "(case cfg_cropType config of None \<Rightarrow> [] | Some v \<Rightarrow> v) = []"
    using assms(1) by auto
  have j: "(case cfg_jitterType config of None \<Rightarrow> [] | Some v \<Rightarrow> v) = []"
    using assms(2) by auto
  obtain lo hi where r: "(case cfg_cropRatio config of None \<Rightarrow> (1, 1) | Some v \<Rightarrow> v) = (lo, hi)"
    by fastforce
  with assms(3) have ok: "0 < lo" "lo \<le> hi" "hi \<le> 1"
    by (auto split: option.splits)
  then have "lo \<le> 1" "0 < hi" by linarith+
  with ok have "\<exists>t. SlimCropTransformer_ctor config this = Inr t \<and>
              m_cropType t = Center \<and> m_jitterType t = JNone"
    unfolding SlimCropTransformer_ctor_def Let_def c j p r
    by (simp split: option.splits)
  with p show ?thesis by simp
qed

theorem empty_names_are_defaults_witness:
  "\<exists>t. SlimCropTransformer_ctor (default_config \<lparr> cfg_cropType := Some [],
          cfg_cropRatio := Some (1 / 2, 1) \<rparr>) blank_crop = Inr t \<and>
        m_cropType t = Center \<and> m_jitterType t = JNone"
  using empty_names_are_defaults
          [of "default_config \<lparr> cfg_cropType := Some [], cfg_cropRatio := Some (1 / 2, 1) \<rparr>" blank_crop]
  by (simp add: default_config_def)

subsection \<open>The steps of \<^verbatim>\<open>Apply\<close> of the crop transformer\<close>

lemma GetCropRect_MultiView10_pure:
  "map_sum id fst (GetCropRect NDEBUG lib MultiView10 v crow ccol ratio g) =
   map_sum id fst (GetCropRect NDEBUG lib' MultiView10 v crow ccol ratio g')"
  unfolding GetCropRect_def Let_def CropType.case
  by (simp only: if_distrib [of "map_sum id fst"] if_distrib [of "case_sum Inl (\<lambda>x. _ x)"]
        sum.case prod.case map_sum.simps id_apply fst_conv cong: if_cong)

lemma GetCropRect_MultiView10_rng:
  "GetCropRect NDEBUG lib MultiView10 v crow ccol ratio g = Inr (r, g2) \<Longrightarrow> g2 = g"
  unfolding GetCropRect_def Let_def by (simp split: if_splits)

lemma pop_or_create_cases:
  obtains rng pool where "pop_or_create f m_rngs = (rng, pool)"
  by fastforce

text \<open>The outcome of \<open>Apply\<close> in terms of the ratio that was selected.\<close>

lemma Apply_after_ratio:
  assumes "pop_or_create (\<lambda>_. mt19937 lib (m_seed this)) m_rngs = (rng, pool)"
    and "jitter_switch NDEBUG lib this rng = Inr (ratio, rng1)"
  shows "SlimCropTransformer_Apply NDEBUG lib this sid mat m_rngs =
     (let viewIndex = (if m_cropType this = MultiView10 then int (sid mod 10) else 0) in
          case GetCropRect NDEBUG lib (m_cropType this) viewIndex (rows mat) (cols mat) ratio rng1 of
            Inl e \<Rightarrow> (Inl e, pool)
          | Inr (rect, rng2) \<Rightarrow>
              (case cv_roi mat rect of
                 Inl e \<Rightarrow> (Inl e, pool)
               | Inr mat1 \<Rightarrow>
                   let (coin, rng3) =
                         (if m_hFlip this then bernoulli_distribution lib rng2 else (False, rng2));
                       flip = (coin \<or> viewIndex \<ge> 5);
                       mat2 = (if flip then cv_flip_horizontal mat1 else mat1)
                   in (Inr (mat2, rect, flip), push rng3 pool)))"
  using assms unfolding SlimCropTransformer_Apply_def Let_def
  by (cases "m_jitterType this") (simp_all split: if_splits prod.splits)

lemma Apply_ratio_error:
  assumes "pop_or_create (\<lambda>_. mt19937 lib (m_seed this)) m_rngs = (rng, pool)"
    and "jitter_switch NDEBUG lib this rng = Inl e"
  shows "SlimCropTransformer_Apply NDEBUG lib this sid mat m_rngs = (Inl e, pool)"
  using assms unfolding SlimCropTransformer_Apply_def Let_def
  by (cases "m_jitterType this") (simp_all split: if_splits prod.splits)

lemma ratio_selection_fixed:
  assumes "m_jitterType this = JNone \<or> m_cropRatioMin this = m_cropRatioMax this"
  shows "jitter_switch NDEBUG lib this rng =
        (if m_jitterType this = UniLength \<or> m_jitterType this = UniArea
         then Inl (RuntimeError ''Jitter type currently not implemented.'')
         else Inr (m_cropRatioMin this, rng))"
  using assms by (cases "m_jitterType this") simp_all

lemma Apply_MultiView10_fixed:
  assumes mv: "m_cropType this = MultiView10" and nf: "\<not> m_hFlip this"
    and fx: "m_jitterType this = JNone \<or> m_cropRatioMin this = m_cropRatioMax this"
  shows "fst (SlimCropTransformer_Apply NDEBUG lib this sid mat m_rngs) =
     (if m_jitterType this = UniLength \<or> m_jitterType this = UniArea
      then Inl (RuntimeError ''Jitter type currently not implemented.'')
      else case map_sum id fst (GetCropRect NDEBUG lib MultiView10 (int (sid mod 10))
                  (rows mat) (cols mat) (m_cropRatioMin this) gen) of
             Inl e \<Rightarrow> Inl e
           | Inr rect \<Rightarrow>
               (case cv_roi mat rect of
                  Inl e \<Rightarrow> Inl e
                | Inr mat1 \<Rightarrow>
                    Inr (if 5 \<le> sid mod 10 then cv_flip_horizontal mat1 else mat1, rect,
                         5 \<le> sid mod 10)))"
proof -
  obtain rng pool where p: "pop_or_create (\<lambda>_. mt19937 lib (m_seed this)) m_rngs = (rng, pool)"
    by (rule pop_or_create_cases)
  note rs = ratio_selection_fixed [OF fx, where rng = rng and lib = lib and NDEBUG = NDEBUG]
  show ?thesis
  proof (cases "m_jitterType this = UniLength \<or> m_jitterType this = UniArea")
    case True
    then show ?thesis
      using Apply_ratio_error [OF p, where sid = sid and mat = mat and NDEBUG = NDEBUG] rs
      by simp
  next
    case False
    then have sel: "jitter_switch NDEBUG lib this rng = Inr (m_cropRatioMin this, rng)"
      using rs by simp
    have pure: "map_sum id fst (GetCropRect NDEBUG lib MultiView10 (int (sid mod 10))
                  (rows mat) (cols mat) (m_cropRatioMin this) gen) =
          map_sum id fst (GetCropRect NDEBUG lib MultiView10 (int (sid mod 10))
                  (rows mat) (cols mat) (m_cropRatioMin this) rng)"
      by (rule GetCropRect_MultiView10_pure)
    show ?thesis
      unfolding Apply_after_ratio [OF p sel] pure using False mv nf
      by (cases "GetCropRect NDEBUG lib MultiView10 (int (sid mod 10)) (rows mat) (cols mat)
                  (m_cropRatioMin this) rng")
         (auto simp: Let_def split: sum.splits)
  qed
qed

text \<open>
  The ratio that \<^verbatim>\<open>Apply\<close> selects and the generator it leaves: the configured minimum
  and the generator untouched, or, for \<open>UniRatio\<close> with distinct bounds, the value drawn
  and the generator after the draw.
\<close>

lemma ratio_selection_cases:
  obtains (err) e where "jitter_switch NDEBUG lib this rng = Inl e"
  | (ok) "jitter_switch NDEBUG lib this rng =
        Inr (if m_jitterType this = UniRatio \<and> m_cropRatioMin this \<noteq> m_cropRatioMax this
             then UniRealT lib (m_cropRatioMin this) (m_cropRatioMax this) rng
             else (m_cropRatioMin this, rng))"
    "m_jitterType this = JNone \<or> m_jitterType this = UniRatio"
proof (cases "m_jitterType this")
  case JNone
  then show ?thesis by (intro ok) simp_all
next
  case UniRatio
  show ?thesis
  proof (cases "m_cropRatioMin this = m_cropRatioMax this")
    case True
    with UniRatio show ?thesis by (intro ok) simp_all
  next
    case False
    obtain ratio rng1 where
      u: "UniRealT lib (m_cropRatioMin this) (m_cropRatioMax this) rng = (ratio, rng1)"
      by fastforce
    show ?thesis
    proof (cases "assert_fails NDEBUG (m_cropRatioMin this \<le> ratio \<and> ratio < m_cropRatioMax this)")
      case nok: True
      with UniRatio False u show ?thesis by (intro err [of AssertionFailed]) simp_all
    next
      case ok': False
      with UniRatio False u show ?thesis by (intro ok) simp_all
    qed
  qed
next
  case UniLength
  then show ?thesis by (intro err) simp
next
  case UniArea
  then show ?thesis by (intro err) simp
qed

text \<open>
  What a successful \<^verbatim>\<open>Apply\<close> in \<open>MultiView10\<close> mode returns: the rectangle of view
  \<open>sid mod 10\<close> for the ratio selected, the flip decision of the source, and the region
  of the rectangle, mirrored when the flip is decided.
\<close>

lemma Apply_MultiView10_success:
  assumes mv: "m_cropType this = MultiView10"
    and res: "fst (SlimCropTransformer_Apply NDEBUG lib this sid mat m_rngs) = Inr (m, r, f)"
    and sel: "sel = (if m_jitterType this = UniRatio \<and> m_cropRatioMin this \<noteq> m_cropRatioMax this
             then UniRealT lib (m_cropRatioMin this) (m_cropRatioMax this)
                    (fst (pop_or_create (\<lambda>_. mt19937 lib (m_seed this)) m_rngs))
             else (m_cropRatioMin this, fst (pop_or_create (\<lambda>_. mt19937 lib (m_seed this)) m_rngs)))"
  shows "GetCropRect NDEBUG lib MultiView10 (int (sid mod 10)) (rows mat) (cols mat) (fst sel) (snd sel)
           = Inr (r, snd sel) \<and>
         f = (m_hFlip this \<and> fst (bernoulli_distribution lib (snd sel)) \<or> 5 \<le> sid mod 10) \<and>
         (\<exists>mat1. cv_roi mat r = Inr mat1 \<and> m = (if f then cv_flip_horizontal mat1 else mat1))"
proof -
  obtain rng pool where p: "pop_or_create (\<lambda>_. mt19937 lib (m_seed this)) m_rngs = (rng, pool)"
    by (rule pop_or_create_cases)
  show ?thesis
  proof (cases rule: ratio_selection_cases [where NDEBUG = NDEBUG and lib = lib and this = this and rng = rng])
    case (err e)
    from Apply_ratio_error [OF p err, of sid mat] res show ?thesis by simp
  next
    case ok
    obtain ratio rng1 where s: "sel = (ratio, rng1)" by (cases sel)
    with ok(1) sel p have js: "jitter_switch NDEBUG lib this rng = Inr (ratio, rng1)" by simp
    note ap = Apply_after_ratio [OF p js, of sid mat]
    show ?thesis
    proof (cases "GetCropRect NDEBUG lib MultiView10 (int (sid mod 10)) (rows mat) (cols mat) ratio rng1")
      case (Inl e)
      with ap res mv show ?thesis by (simp add: Let_def)
    next
      case (Inr rg)
      obtain rect rng2 where rg: "rg = (rect, rng2)" by (cases rg)
      with Inr have g: "GetCropRect NDEBUG lib MultiView10 (int (sid mod 10)) (rows mat) (cols mat)
            ratio rng1 = Inr (rect, rng1)"
        using GetCropRect_MultiView10_rng [of NDEBUG lib "int (sid mod 10)" "rows mat" "cols mat"
            ratio rng1 rect rng2]
        by simp
      show ?thesis
      proof (cases "cv_roi mat rect")
        case (Inl e)
        with ap res mv g show ?thesis by (simp add: Let_def)
      next
        case roi: (Inr mat1)
        obtain coin rng3 where c:
          "(if m_hFlip this then bernoulli_distribution lib rng1 else (False, rng1)) = (coin, rng3)"
          by fastforce
        from ap res mv g roi c have e: "r = rect" "f = (coin \<or> 5 \<le> int (sid mod 10))"
          "m = (if coin \<or> 5 \<le> int (sid mod 10) then cv_flip_horizontal mat1 else mat1)"
          by (auto simp: Let_def)
        from c have "coin = (m_hFlip this \<and> fst (bernoulli_distribution lib rng1))"
          by (auto split: if_splits)
        with e g roi s show ?thesis by simp
      qed
    qed
  qed
qed

lemma Apply_total:
  assumes lib: "stdlib_ok lib"
    and dims: "0 < rows mat" "rows mat < 2 ^ 31" "0 < cols mat" "cols mat < 2 ^ 31"
    and ratio: "0 < m_cropRatioMin this" "m_cropRatioMin this \<le> m_cropRatioMax this"
       "m_cropRatioMax this \<le> 1"
    and jt: "m_jitterType this = JNone \<or> m_jitterType this = UniRatio"
  shows "\<exists>res. fst (SlimCropTransformer_Apply NDEBUG lib this sid mat m_rngs) = Inr res"
proof -
  obtain rng pool where p: "pop_or_create (\<lambda>_. mt19937 lib (m_seed this)) m_rngs = (rng, pool)"
    by (rule pop_or_create_cases)
  have drawn: "m_cropRatioMin this \<le> fst (UniRealT lib (m_cropRatioMin this) (m_cropRatioMax this) rng) \<and>
          fst (UniRealT lib (m_cropRatioMin this) (m_cropRatioMax this) rng) < m_cropRatioMax this"
    if "m_cropRatioMin this \<noteq> m_cropRatioMax this"
    using lib ratio(2) that unfolding stdlib_ok_def by (metis less_le)
  show ?thesis
  proof (cases rule: ratio_selection_cases [where NDEBUG = NDEBUG and lib = lib and this = this and rng = rng])
    case (err e)
    with jt drawn show ?thesis
      by (auto simp: Let_def assert_fails_def split: if_splits prod.splits)
  next
    case ok
    obtain rat rng1 where s:
      "(if m_jitterType this = UniRatio \<and> m_cropRatioMin this \<noteq> m_cropRatioMax this
             then UniRealT lib (m_cropRatioMin this) (m_cropRatioMax this) rng
             else (m_cropRatioMin this, rng)) = (rat, rng1)"
      by fastforce
    with ok(1) have js: "jitter_switch NDEBUG lib this rng = Inr (rat, rng1)" by simp
    note ap = Apply_after_ratio [OF p js, of sid mat]
    define v where "v = (if m_cropType this = MultiView10 then int (sid mod 10) else 0)"
    have "m_cropRatioMin this \<le> rat \<and> rat \<le> m_cropRatioMax this"
      using s drawn ratio(2) by (auto split: if_splits)
    then have r01: "0 < rat" "rat \<le> 1" using ratio by linarith+
    have vok: "m_cropType this = MultiView10 \<longrightarrow> 0 \<le> v"
      "NDEBUG \<or> (if m_cropType this = MultiView10 then v < 10 else v = 0)"
      unfolding v_def by simp_all
    from GetCropRect_value [OF lib dims r01 vok, of rng1]
    obtain xOff yOff rng2 where
      g: "GetCropRect NDEBUG lib (m_cropType this) v (rows mat) (cols mat) rat rng1
           = Inr (Rect xOff yOff \<lfloor>double_mul (real_of_int (min (rows mat) (cols mat))) rat\<rfloor>
                   \<lfloor>double_mul (real_of_int (min (rows mat) (cols mat))) rat\<rfloor>, rng2)"
      and b: "0 \<le> xOff" "xOff \<le> cols mat - \<lfloor>double_mul (real_of_int (min (rows mat) (cols mat))) rat\<rfloor>"
        "0 \<le> yOff" "yOff \<le> rows mat - \<lfloor>double_mul (real_of_int (min (rows mat) (cols mat))) rat\<rfloor>"
      by blast
    have m: "0 < min (rows mat) (cols mat)" "min (rows mat) (cols mat) < 2 ^ 31"
      using dims by simp_all
    from cropSize_bounds(1) [OF m r01]
    have s0: "0 \<le> \<lfloor>double_mul (real_of_int (min (rows mat) (cols mat))) rat\<rfloor>" .
    with b obtain mat1 where roi: "cv_roi mat (Rect xOff yOff
         \<lfloor>double_mul (real_of_int (min (rows mat) (cols mat))) rat\<rfloor>
         \<lfloor>double_mul (real_of_int (min (rows mat) (cols mat))) rat\<rfloor>) = Inr mat1"
      unfolding cv_roi_def Let_def by simp
    obtain coin rng3 where c:
      "(if m_hFlip this then bernoulli_distribution lib rng2 else (False, rng2)) = (coin, rng3)"
      by fastforce
    show ?thesis
      unfolding ap using g roi c unfolding v_def by (simp add: Let_def)
  qed
qed

lemma GetCropRect_error:
  "GetCropRect NDEBUG lib type viewIndex crow ccol cropRatio rng = Inl e \<Longrightarrow> e = AssertionFailed"
  unfolding GetCropRect_def Let_def
  by (simp split: if_splits sum.splits prod.splits CropType.splits)

lemma cv_roi_error: "cv_roi m r = Inl e \<Longrightarrow> e = cvException"
  unfolding cv_roi_def Let_def by (simp split: if_splits)

subsection \<open>C8: the reserved jitter modes are not implemented\<close>

text \<open>
  Claim C8. For every sample, if the jitter mode is one of the recognised but reserved
  modes (\<open>UniLength\<close> or \<open>UniArea\<close>), \<^verbatim>\<open>Apply\<close> of the crop transformer fails with the
  error "Jitter type currently not implemented."; in the modes \<open>None\<close> and \<open>UniRatio\<close> it
  never fails with that error. This holds with the assertions compiled in or out.
\<close>

theorem reserved_jitter_not_implemented:
  "fst (SlimCropTransformer_Apply NDEBUG lib this sid mat m_rngs) =
      Inl (RuntimeError ''Jitter type currently not implemented.'') \<longleftrightarrow>
   m_jitterType this = UniLength \<or> m_jitterType this = UniArea"
proof (cases "m_jitterType this")
  case JNone
  then show ?thesis
    unfolding SlimCropTransformer_Apply_def Let_def
    by (auto split: prod.splits sum.splits dest: GetCropRect_error cv_roi_error)
next
  case UniRatio
  then show ?thesis
    unfolding SlimCropTransformer_Apply_def Let_def
    by (auto split: prod.splits sum.splits if_splits dest: GetCropRect_error cv_roi_error)
next
  case UniLength
  then show ?thesis
    unfolding SlimCropTransformer_Apply_def Let_def by (simp split: prod.splits)
next
  case UniArea
  then show ?thesis
    unfolding SlimCropTransformer_Apply_def Let_def by (simp split: prod.splits)
qed

subsection \<open>C2: the view of \<open>MultiView10\<close> and the sample identifier\<close>

text \<open>
  Claim C2, as amended. In \<open>MultiView10\<close> mode:
  \<^item> whenever \<^verbatim>\<open>Apply\<close> succeeds, the rectangle is the one that \<^verbatim>\<open>GetCropRect\<close> computes for
    view \<open>sid mod 10\<close> and the ratio in use, where the ratio is the configured minimum when
    the jitter mode is \<open>None\<close> or the bounds are equal, and the value drawn from the
    generator taken from the pool when the jitter mode is \<open>UniRatio\<close> with distinct
    bounds; the flip decision is exactly: the horizontal flip is enabled and the coin
    drawn from that generator (after the ratio) succeeds, or \<open>sid mod 10 \<ge> 5\<close>; and the
    image is the region of the rectangle, mirrored when the flip is decided;
  \<^item> hence, when the horizontal flip is not enabled (the default of this mode) and the
    ratio is fixed, two calls of \<^verbatim>\<open>Apply\<close> with identifiers that agree modulo 10 and the same
    image give the same outcome (image, rectangle and flip decision), whatever the state
    of the generator pool;
  \<^item> \<^verbatim>\<open>Apply\<close> succeeds on every non-empty image when the ratio bounds are valid and
    the jitter mode is \<open>None\<close> or \<open>UniRatio\<close>.
\<close>

theorem MultiView10_view_from_sample_id:
  assumes mv: "m_cropType this = MultiView10"
  shows "(\<forall>m r f. fst (SlimCropTransformer_Apply NDEBUG lib this sid mat m_rngs) = Inr (m, r, f) \<longrightarrow>
            (let rng = fst (pop_or_create (\<lambda>_. mt19937 lib (m_seed this)) m_rngs);
                 (ratio, rng1) =
                   (if m_jitterType this = UniRatio \<and> m_cropRatioMin this \<noteq> m_cropRatioMax this
                    then UniRealT lib (m_cropRatioMin this) (m_cropRatioMax this) rng
                    else (m_cropRatioMin this, rng))
             in GetCropRect NDEBUG lib MultiView10 (int (sid mod 10)) (rows mat) (cols mat)
                  ratio rng1 = Inr (r, rng1) \<and>
                f = (m_hFlip this \<and> fst (bernoulli_distribution lib rng1) \<or> 5 \<le> sid mod 10) \<and>
                (\<exists>mat1. cv_roi mat r = Inr mat1 \<and>
                   m = (if f then cv_flip_horizontal mat1 else mat1)))) \<and>
         (\<not> m_hFlip this \<and>
            (m_jitterType this = JNone \<or> m_cropRatioMin this = m_cropRatioMax this) \<and>
            sid mod 10 = sid' mod 10 \<longrightarrow>
          fst (SlimCropTransformer_Apply NDEBUG lib this sid mat m_rngs) =
          fst (SlimCropTransformer_Apply NDEBUG lib this sid' mat m_rngs')) \<and>
         (stdlib_ok lib \<and> 0 < rows mat \<and> rows mat < 2 ^ 31 \<and> 0 < cols mat \<and> cols mat < 2 ^ 31 \<and>
            0 < m_cropRatioMin this \<and>
            m_cropRatioMin this \<le> m_cropRatioMax this \<and> m_cropRatioMax this \<le> 1 \<and>
            (m_jitterType this = JNone \<or> m_jitterType this = UniRatio) \<longrightarrow>
          (\<exists>res. fst (SlimCropTransformer_Apply NDEBUG lib this sid mat m_rngs) = Inr res))"
proof (intro conjI impI allI)
  fix m r f
  assume res: "fst (SlimCropTransformer_Apply NDEBUG lib this sid mat m_rngs) = Inr (m, r, f)"
  from Apply_MultiView10_success [OF mv res refl]
  show "let rng = fst (pop_or_create (\<lambda>_. mt19937 lib (m_seed this)) m_rngs);
                 (ratio, rng1) =
                   (if m_jitterType this = UniRatio \<and> m_cropRatioMin this \<noteq> m_cropRatioMax this
                    then UniRealT lib (m_cropRatioMin this) (m_cropRatioMax this) rng
                    else (m_cropRatioMin this, rng))
             in GetCropRect NDEBUG lib MultiView10 (int (sid mod 10)) (rows mat) (cols mat)
                  ratio rng1 = Inr (r, rng1) \<and>
                f = (m_hFlip this \<and> fst (bernoulli_distribution lib rng1) \<or> 5 \<le> sid mod 10) \<and>
                (\<exists>mat1. cv_roi mat r = Inr mat1 \<and>
                   m = (if f then cv_flip_horizontal mat1 else mat1))"
    unfolding Let_def split_beta .
next
  assume a: "\<not> m_hFlip this \<and>
            (m_jitterType this = JNone \<or> m_cropRatioMin this = m_cropRatioMax this) \<and>
            sid mod 10 = sid' mod 10"
  then have nf: "\<not> m_hFlip this"
    and fx: "m_jitterType this = JNone \<or> m_cropRatioMin this = m_cropRatioMax this"
    and eq: "sid mod 10 = sid' mod 10" by simp_all
  show "fst (SlimCropTransformer_Apply NDEBUG lib this sid mat m_rngs) =
          fst (SlimCropTransformer_Apply NDEBUG lib this sid' mat m_rngs')"
    unfolding Apply_MultiView10_fixed [OF mv nf fx, where lib = lib and mat = mat and gen = undefined] eq ..
next
  assume "stdlib_ok lib \<and> 0 < rows mat \<and> rows mat < 2 ^ 31 \<and> 0 < cols mat \<and> cols mat < 2 ^ 31 \<and>
            0 < m_cropRatioMin this \<and>
            m_cropRatioMin this \<le> m_cropRatioMax this \<and> m_cropRatioMax this \<le> 1 \<and>
            (m_jitterType this = JNone \<or> m_jitterType this = UniRatio)"
  then show "\<exists>res. fst (SlimCropTransformer_Apply NDEBUG lib this sid mat m_rngs) = Inr res"
    by (intro Apply_total) simp_all
qed

theorem MultiView10_view_from_sample_id_witness:
  "m_cropType multiview_half = MultiView10 \<and> \<not> m_hFlip multiview_half \<and>
   m_cropRatioMin multiview_half = m_cropRatioMax multiview_half \<and> (7::nat) mod 10 = 17 mod 10 \<and>
   stdlib_ok counter_lib \<and> 0 < rows image_5x5 \<and> rows image_5x5 < 2 ^ 31 \<and>
   0 < cols image_5x5 \<and> cols image_5x5 < 2 ^ 31 \<and>
   fst (SlimCropTransformer_Apply True counter_lib multiview_half 7 image_5x5 []) =
   fst (SlimCropTransformer_Apply True counter_lib multiview_half 17 image_5x5 [4]) \<and>
   (\<exists>m. fst (SlimCropTransformer_Apply True counter_lib multiview_half 7 image_5x5 []) =
        Inr (m, Rect 0 3 2 2, True)) \<and>
   m_cropType multiview_hflip_jitter = MultiView10 \<and> m_hFlip multiview_hflip_jitter \<and>
   m_jitterType multiview_hflip_jitter = UniRatio \<and>
   UniRealT counter_lib (m_cropRatioMin multiview_hflip_jitter)
     (m_cropRatioMax multiview_hflip_jitter) (1::nat) = (5 / 8, 2) \<and>
   bernoulli_distribution counter_lib (2::nat) = (True, 3) \<and>
   (\<exists>m. fst (SlimCropTransformer_Apply False counter_lib multiview_hflip_jitter 1 image_5x5 [1]) =
        Inr (m, Rect 2 0 3 3, True))"
proof -
  have t: "m_cropType multiview_half = MultiView10" "\<not> m_hFlip multiview_half"
    "m_jitterType multiview_half = JNone" "m_cropRatioMin multiview_half = 1 / 2"
    "m_cropRatioMax multiview_half = 1 / 2" "m_seed multiview_half = 0"
    by (simp_all add: multiview_half_def multiview_plain_def blank_crop_def)
  have u: "m_cropType multiview_hflip_jitter = MultiView10" "m_hFlip multiview_hflip_jitter"
    "m_jitterType multiview_hflip_jitter = UniRatio" "m_cropRatioMin multiview_hflip_jitter = 1 / 2"
    "m_cropRatioMax multiview_hflip_jitter = 1" "m_seed multiview_hflip_jitter = 0"
    by (simp_all add: multiview_hflip_jitter_def multiview_jitter_def multiview_plain_def
          blank_crop_def)
  have d: "rows image_5x5 = 5" "cols image_5x5 = 5" by (simp_all add: image_5x5_def)
  have dr: "UniRealT counter_lib (1 / 2) 1 (1::nat) = (5 / 8, 2)"
    "bernoulli_distribution counter_lib (2::nat) = (True, 3)"
    by (simp_all add: counter_lib_simps)
  have g: "GetCropRect True counter_lib MultiView10 7 5 5 (1 / 2) g = Inr (Rect 0 3 2 2, g)"
    "GetCropRect False counter_lib MultiView10 1 5 5 (5 / 8) g = Inr (Rect 2 0 3 3, g)"
    for g :: nat
    by (simp_all add: GetCropRect_def assert_fails_def static_cast_int_def double_examples
          cmod_def cdiv_def Let_def)
  note w = MultiView10_view_from_sample_id [OF t(1), of True counter_lib 7 image_5x5 "[]" 17 "[4]"]
  from w t have eq: "fst (SlimCropTransformer_Apply True counter_lib multiview_half 7 image_5x5 []) =
   fst (SlimCropTransformer_Apply True counter_lib multiview_half 17 image_5x5 [4])" by simp
  from w t d counter_lib_ok obtain m r f where
    res: "fst (SlimCropTransformer_Apply True counter_lib multiview_half 7 image_5x5 []) = Inr (m, r, f)"
    by fastforce
  from w [THEN conjunct1, rule_format, OF res]
  have "r = Rect 0 3 2 2" "f = True"
    by (simp_all add: Let_def t d g pop_or_create_def counter_lib_simps)
  with res have A: "\<exists>m. fst (SlimCropTransformer_Apply True counter_lib multiview_half 7 image_5x5 []) =
        Inr (m, Rect 0 3 2 2, True)" by simp
  note w' = MultiView10_view_from_sample_id [OF u(1), of False counter_lib 1 image_5x5 "[1]" 1 "[1]"]
  from w' u d counter_lib_ok obtain m' r' f' where
    res': "fst (SlimCropTransformer_Apply False counter_lib multiview_hflip_jitter 1 image_5x5 [1]) =
       Inr (m', r', f')"
    by fastforce
  from w' [THEN conjunct1, rule_format, OF res']
  have "r' = Rect 2 0 3 3" "f' = True"
    using dr by (simp_all add: Let_def u d g pop_or_create_def)
  with res' have B: "\<exists>m. fst (SlimCropTransformer_Apply False counter_lib multiview_hflip_jitter 1
        image_5x5 [1]) = Inr (m, Rect 2 0 3 3, True)" by simp
  from dr eq A B show ?thesis by (simp add: t u d counter_lib_ok)
qed

text \<open>
  Claim C2 as stated fails. With the horizontal flip enabled, the flip decision of the
  views 0 to 4 is a coin draw: two successive calls with identifier \<open>0\<close> on the same
  image flip the first time and not the second. With \<open>UniRatio\<close> jitter, the position of
  the rectangle follows the ratio drawn: two successive calls with identifier \<open>1\<close> on the
  same image place the top-right view at \<open>x = 3\<close> and then at \<open>x = 2\<close>.
\<close>

theorem MultiView10_depends_on_generator:
  "SlimCropTransformer_ctor
     (default_config \<lparr> cfg_cropType := Some ''MultiView10'', cfg_hflip := Some True \<rparr>) blank_crop
     = Inr multiview_hflip \<and>
   SlimCropTransformer_Apply True counter_lib multiview_hflip 0 image_2x2 [] =
     (Inr (image_2x2 \<lparr> elems := [2, 1, 4, 3] \<rparr>, Rect 0 0 2 2, True), [1]) \<and>
   SlimCropTransformer_Apply True counter_lib multiview_hflip 0 image_2x2 [1] =
     (Inr (image_2x2, Rect 0 0 2 2, False), [2]) \<and>
   SlimCropTransformer_ctor
     (default_config \<lparr> cfg_cropType := Some ''MultiView10'', cfg_cropRatio := Some (1 / 2, 1),
        cfg_jitterType := Some ''UniRatio'' \<rparr>) blank_crop
     = Inr multiview_jitter \<and>
   map_sum id snd (fst (SlimCropTransformer_Apply True counter_lib multiview_jitter 1 image_5x5 [])) =
     Inr (Rect 3 0 2 2, False) \<and>
   snd (SlimCropTransformer_Apply True counter_lib multiview_jitter 1 image_5x5 []) = [1] \<and>
   map_sum id snd (fst (SlimCropTransformer_Apply True counter_lib multiview_jitter 1 image_5x5 [1])) =
     Inr (Rect 2 0 3 3, False)"
proof -
  have c1: "SlimCropTransformer_ctor
     (default_config \<lparr> cfg_cropType := Some ''MultiView10'', cfg_hflip := Some True \<rparr>) blank_crop
     = Inr multiview_hflip"
    by (simp add: SlimCropTransformer_ctor_def SlimImageTransformerBase_ctor_def default_config_def
          ParseCropType_def ParseJitterType_def AreEqualIgnoreCase_def tolower_def
          multiview_hflip_def multiview_plain_def blank_crop_def)
  have c2: "SlimCropTransformer_ctor
     (default_config \<lparr> cfg_cropType := Some ''MultiView10'', cfg_cropRatio := Some (1 / 2, 1),
        cfg_jitterType := Some ''UniRatio'' \<rparr>) blank_crop
     = Inr multiview_jitter"
    by (simp add: SlimCropTransformer_ctor_def SlimImageTransformerBase_ctor_def default_config_def
          ParseCropType_def ParseJitterType_def AreEqualIgnoreCase_def tolower_def
          multiview_jitter_def multiview_plain_def blank_crop_def)
  have g1: "GetCropRect True counter_lib MultiView10 0 2 2 1 g = Inr (Rect 0 0 2 2, g)" for g :: nat
    by (simp add: GetCropRect_def assert_fails_def static_cast_int_def double_examples
          cmod_def cdiv_def Let_def)
  have roi1: "cv_roi image_2x2 (Rect 0 0 2 2) = Inr image_2x2"
    by (simp add: cv_roi_def image_2x2_def upt_rec [of _ "numeral n" for n])
  have fl1: "cv_flip_horizontal image_2x2 = image_2x2 \<lparr> elems := [2, 1, 4, 3] \<rparr>"
    by (simp add: cv_flip_horizontal_def image_2x2_def upt_rec [of _ "numeral n" for n])
  have d1: "rows image_2x2 = 2" "cols image_2x2 = 2" "rows image_5x5 = 5" "cols image_5x5 = 5"
    by (simp_all add: image_2x2_def image_5x5_def)
  have t1: "m_seed multiview_hflip = 0" "m_jitterType multiview_hflip = JNone"
    "m_cropRatioMin multiview_hflip = 1" "m_cropType multiview_hflip = MultiView10"
    "m_hFlip multiview_hflip"
    by (simp_all add: multiview_hflip_def multiview_plain_def blank_crop_def)
  have a1: "SlimCropTransformer_Apply True counter_lib multiview_hflip 0 image_2x2 [] =
     (Inr (image_2x2 \<lparr> elems := [2, 1, 4, 3] \<rparr>, Rect 0 0 2 2, True), [1])"
    by (simp add: SlimCropTransformer_Apply_def pop_or_create_def push_def counter_lib_simps
          t1 d1 g1 roi1 fl1)
  have a2: "SlimCropTransformer_Apply True counter_lib multiview_hflip 0 image_2x2 [1] =
     (Inr (image_2x2, Rect 0 0 2 2, False), [2])"
    by (simp add: SlimCropTransformer_Apply_def pop_or_create_def push_def counter_lib_simps
          t1 d1 g1 roi1 fl1)
  have t2: "m_seed multiview_jitter = 0" "m_jitterType multiview_jitter = UniRatio"
    "m_cropRatioMin multiview_jitter = 1 / 2" "m_cropRatioMax multiview_jitter = 1"
    "m_cropType multiview_jitter = MultiView10" "\<not> m_hFlip multiview_jitter"
    by (simp_all add: multiview_jitter_def multiview_plain_def blank_crop_def)
  have g2: "GetCropRect True counter_lib MultiView10 1 5 5 (1 / 2) g = Inr (Rect 3 0 2 2, g)"
    "GetCropRect True counter_lib MultiView10 1 5 5 (5 / 8) g = Inr (Rect 2 0 3 3, g)" for g :: nat
    by (simp_all add: GetCropRect_def assert_fails_def static_cast_int_def double_examples
          cmod_def cdiv_def Let_def)
  have roi2: "\<exists>m. cv_roi image_5x5 (Rect 3 0 2 2) = Inr m" "\<exists>m. cv_roi image_5x5 (Rect 2 0 3 3) = Inr m"
    by (simp_all add: cv_roi_def Let_def d1)
  have b1: "map_sum id snd (fst (SlimCropTransformer_Apply True counter_lib multiview_jitter 1 image_5x5 [])) =
     Inr (Rect 3 0 2 2, False) \<and>
     snd (SlimCropTransformer_Apply True counter_lib multiview_jitter 1 image_5x5 []) = [1]"
    using roi2(1)
    by (auto simp add: SlimCropTransformer_Apply_def assert_fails_def pop_or_create_def push_def
          counter_lib_simps t2 d1 g2)
  have b2: "map_sum id snd (fst (SlimCropTransformer_Apply True counter_lib multiview_jitter 1 image_5x5 [1])) =
     Inr (Rect 2 0 3 3, False)"
    using roi2(2)
    by (auto simp add: SlimCropTransformer_Apply_def assert_fails_def pop_or_create_def push_def
          counter_lib_simps t2 d1 g2)
  from c1 a1 a2 c2 b1 b2 show ?thesis by (intro conjI) simp_all
qed

lemma CV_MAKETYPE_channels:
  "CV_MAKETYPE d c = CV_MAKETYPE d' c' \<Longrightarrow> c = c'"
proof -
  assume a: "CV_MAKETYPE d c = CV_MAKETYPE d' c'"
  have "(d mod 8 + (c - 1) * 8) div 8 = c - 1" "(d' mod 8 + (c' - 1) * 8) div 8 = c' - 1"
    by simp_all
  moreover from a have "(d mod 8 + (c - 1) * 8) div 8 = (d' mod 8 + (c' - 1) * 8) div 8"
    unfolding CV_MAKETYPE_def by (rule arg_cong)
  ultimately have "c - 1 = c' - 1" by (simp only:)
  then show ?thesis by simp
qed

lemma Mat_type_eq:
  "Mat_type a = Mat_type b \<longleftrightarrow> channels a = channels b \<and> depth a mod 8 = depth b mod 8"
proof
  assume e: "Mat_type a = Mat_type b"
  then have c: "channels a = channels b" unfolding Mat_type_def by (rule CV_MAKETYPE_channels)
  with e show "channels a = channels b \<and> depth a mod 8 = depth b mod 8"
    unfolding Mat_type_def CV_MAKETYPE_def by simp
next
  assume "channels a = channels b \<and> depth a mod 8 = depth b mod 8"
  then show "Mat_type a = Mat_type b" unfolding Mat_type_def CV_MAKETYPE_def by simp
qed


subsection \<open>C3: mean subtraction\<close>

text \<open>
  Claim C3. For every sample:
  \<^item> when the pixel dimensions of the mean image differ from the sample's, the transform
    returns the buffer unchanged, without error: this is the guard of the source, which
    is what runs when the assertions are compiled out, and, with the assertions compiled
    in, when the mean image is absent (size \<open>(0, 0)\<close>);
  \<^item> when pixel dimensions, channel count and element depth agree, the result is the
    element-wise difference of the sample and the mean image;
  \<^item> whatever the transform returns is either the unchanged buffer, and then the pixel
    dimensions differ, or the element-wise difference, and then pixel dimensions and
    channel counts agree: subtraction happens only when both match;
  \<^item> apart from the assertion, the transform is the guard that follows it: the
    subtraction when the pixel dimensions agree, the unchanged buffer when they differ;
  \<^item> the assertion, a check for programming errors that only a build with assertions
    makes, fails exactly when a mean image is present and its pixel dimensions or its
    channel count differ from the sample's.
\<close>

theorem mean_subtraction_cases:
  fixes this :: "('a::minus) SlimMeanTransformer" and mat :: "'a Mat"
  shows "(Mat_size (m_meanImg this) \<noteq> Mat_size mat \<and>
            (NDEBUG \<or> Mat_size (m_meanImg this) = (0, 0)) \<longrightarrow>
            SlimMeanTransformer_Apply NDEBUG this sid mat = Inr mat) \<and>
         (Mat_size (m_meanImg this) = Mat_size mat \<and> channels (m_meanImg this) = channels mat \<and>
            depth (m_meanImg this) = depth mat \<longrightarrow>
            SlimMeanTransformer_Apply NDEBUG this sid mat =
              Inr (mat \<lparr> elems := map2 (-) (elems mat) (elems (m_meanImg this)) \<rparr>)) \<and>
         (\<forall>mat'. SlimMeanTransformer_Apply NDEBUG this sid mat = Inr mat' \<longrightarrow>
            Mat_size (m_meanImg this) \<noteq> Mat_size mat \<and> mat' = mat \<or>
            Mat_size (m_meanImg this) = Mat_size mat \<and> channels (m_meanImg this) = channels mat \<and>
              mat' = mat \<lparr> elems := map2 (-) (elems mat) (elems (m_meanImg this)) \<rparr>) \<and>
         (SlimMeanTransformer_Apply NDEBUG this sid mat \<noteq> Inl AssertionFailed \<longrightarrow>
            SlimMeanTransformer_Apply NDEBUG this sid mat =
              (if Mat_size (m_meanImg this) = Mat_size mat then cv_subtract mat (m_meanImg this)
               else Inr mat)) \<and>
         (SlimMeanTransformer_Apply NDEBUG this sid mat = Inl AssertionFailed \<longleftrightarrow>
            \<not> NDEBUG \<and> Mat_size (m_meanImg this) \<noteq> (0, 0) \<and>
            (Mat_size (m_meanImg this) \<noteq> Mat_size mat \<or> channels (m_meanImg this) \<noteq> channels mat))"
proof (intro conjI impI allI)
  assume "SlimMeanTransformer_Apply NDEBUG this sid mat \<noteq> Inl AssertionFailed"
  then show "SlimMeanTransformer_Apply NDEBUG this sid mat =
              (if Mat_size (m_meanImg this) = Mat_size mat then cv_subtract mat (m_meanImg this)
               else Inr mat)"
    unfolding SlimMeanTransformer_Apply_def by (simp split: if_splits)
next
  assume "Mat_size (m_meanImg this) \<noteq> Mat_size mat \<and>
            (NDEBUG \<or> Mat_size (m_meanImg this) = (0, 0))"
  then show "SlimMeanTransformer_Apply NDEBUG this sid mat = Inr mat"
    unfolding SlimMeanTransformer_Apply_def assert_fails_def by auto
next
  assume a: "Mat_size (m_meanImg this) = Mat_size mat \<and> channels (m_meanImg this) = channels mat \<and>
            depth (m_meanImg this) = depth mat"
  then have "Mat_type mat = Mat_type (m_meanImg this)" unfolding Mat_type_eq by simp
  with a show "SlimMeanTransformer_Apply NDEBUG this sid mat =
              Inr (mat \<lparr> elems := map2 (-) (elems mat) (elems (m_meanImg this)) \<rparr>)"
    unfolding SlimMeanTransformer_Apply_def cv_subtract_def assert_fails_def by simp
next
  fix mat'
  assume r: "SlimMeanTransformer_Apply NDEBUG this sid mat = Inr mat'"
  show "Mat_size (m_meanImg this) \<noteq> Mat_size mat \<and> mat' = mat \<or>
            Mat_size (m_meanImg this) = Mat_size mat \<and> channels (m_meanImg this) = channels mat \<and>
              mat' = mat \<lparr> elems := map2 (-) (elems mat) (elems (m_meanImg this)) \<rparr>"
  proof (cases "Mat_size (m_meanImg this) = Mat_size mat")
    case False
    with r show ?thesis
      unfolding SlimMeanTransformer_Apply_def by (simp split: if_splits)
  next
    case True
    with r have s: "cv_subtract mat (m_meanImg this) = Inr mat'"
      unfolding SlimMeanTransformer_Apply_def by (simp split: if_splits)
    then have "Mat_type mat = Mat_type (m_meanImg this)"
      and "mat' = mat \<lparr> elems := map2 (-) (elems mat) (elems (m_meanImg this)) \<rparr>"
      unfolding cv_subtract_def by (simp_all split: if_splits)
    with True show ?thesis unfolding Mat_type_eq by simp
  qed
next
  show "SlimMeanTransformer_Apply NDEBUG this sid mat = Inl AssertionFailed \<longleftrightarrow>
            \<not> NDEBUG \<and> Mat_size (m_meanImg this) \<noteq> (0, 0) \<and>
            (Mat_size (m_meanImg this) \<noteq> Mat_size mat \<or> channels (m_meanImg this) \<noteq> channels mat)"
    unfolding SlimMeanTransformer_Apply_def cv_subtract_def assert_fails_def by auto
qed

theorem mean_subtraction_cases_witness:
  "Mat_size (m_meanImg (mean_transformer mean_1x1)) \<noteq> Mat_size sample_2x2 \<and>
   SlimMeanTransformer_Apply True (mean_transformer mean_1x1) 0 sample_2x2 = Inr sample_2x2 \<and>
   Mat_size (m_meanImg (mean_transformer mean_absent)) = (0, 0) \<and>
   Mat_size (m_meanImg (mean_transformer mean_absent)) \<noteq> Mat_size sample_2x2 \<and>
   SlimMeanTransformer_Apply False (mean_transformer mean_absent) 0 sample_2x2 = Inr sample_2x2 \<and>
   Mat_size (m_meanImg (mean_transformer mean_2x2)) = Mat_size sample_2x2 \<and>
   channels (m_meanImg (mean_transformer mean_2x2)) = channels sample_2x2 \<and>
   depth (m_meanImg (mean_transformer mean_2x2)) = depth sample_2x2 \<and>
   SlimMeanTransformer_Apply True (mean_transformer mean_2x2) 0 sample_2x2 =
     Inr (sample_2x2 \<lparr> elems := [9, 18, 27, 36] \<rparr>) \<and>
   Mat_size (m_meanImg (mean_transformer mean_1x1)) \<noteq> (0, 0) \<and>
   SlimMeanTransformer_Apply False (mean_transformer mean_1x1) 0 sample_2x2 = Inl AssertionFailed"
proof -
  have m: "m_meanImg (mean_transformer img) = img" for img :: "int Mat"
    by (simp add: mean_transformer_def)
  have s: "Mat_size mean_absent = (0, 0)" "Mat_size sample_2x2 = (2, 2)" "Mat_size mean_2x2 = (2, 2)"
    "Mat_size mean_1x1 = (1, 1)"
    by (simp_all add: Mat_size_def mean_absent_def sample_2x2_def mean_2x2_def mean_1x1_def)
  have c: "channels mean_2x2 = channels sample_2x2" "depth mean_2x2 = depth sample_2x2"
    by (simp_all add: sample_2x2_def mean_2x2_def)
  have e: "map2 (-) (elems sample_2x2) (elems mean_2x2) = [9, 18, 27, 36]"
    by (simp add: sample_2x2_def mean_2x2_def)
  note t1 = mean_subtraction_cases [of "mean_transformer mean_1x1" sample_2x2 True 0,
               THEN conjunct1]
  note t2 = mean_subtraction_cases [of "mean_transformer mean_absent" sample_2x2 False 0,
               THEN conjunct1]
  note t3 = mean_subtraction_cases [of "mean_transformer mean_2x2" sample_2x2 True 0,
               THEN conjunct2, THEN conjunct1]
  note t4 = mean_subtraction_cases [of "mean_transformer mean_1x1" sample_2x2 False 0,
               THEN conjunct2, THEN conjunct2, THEN conjunct2, THEN conjunct2]
  have 1: "SlimMeanTransformer_Apply True (mean_transformer mean_1x1) 0 sample_2x2 = Inr sample_2x2"
    using t1 by (simp add: m s)
  have 2: "SlimMeanTransformer_Apply False (mean_transformer mean_absent) 0 sample_2x2 =
     Inr sample_2x2"
    using t2 by (simp add: m s)
  have 3: "SlimMeanTransformer_Apply True (mean_transformer mean_2x2) 0 sample_2x2 =
     Inr (sample_2x2 \<lparr> elems := [9, 18, 27, 36] \<rparr>)"
    using t3 by (simp add: m s c e)
  have 4: "SlimMeanTransformer_Apply False (mean_transformer mean_1x1) 0 sample_2x2 =
     Inl AssertionFailed"
    using t4 by (simp add: m s)
  from 1 2 3 4 show ?thesis by (simp add: m s c)
qed

lemma process_stream_negotiation_error:
  "fst (negotiate this inputStream) = Inl e \<Longrightarrow>
   process_stream negotiate transform this inputStream samples p = Inl e"
  unfolding process_stream_def by (cases "negotiate this inputStream") simp

lemma Base_Transform_outcome:
  "fst (SlimImageTransformerBase_Transform this s) =
     (if m_storageType s \<noteq> dense
        then Inl (LogicError ''ImageTransformerBase supports only dense input streams.'')
      else if m_elementType s = tdouble \<or> m_elementType s = tfloat then Inr s
      else Inl (RuntimeError ''Unsupported type''))"
  unfolding SlimImageTransformerBase_Transform_def Let_def by simp

lemma Transpose_Transform_outcome:
  "fst (SlimTransposeTransformer_Transform t s) =
     (if m_storageType s \<noteq> dense
        then Inl (LogicError ''Transpose transformer supports only dense streams.'')
      else Inr (s \<lparr> m_sampleLayout := AsTensorShape (ImageDimensions_of (m_sampleLayout s) HWC) CHW \<rparr>))"
  unfolding SlimTransposeTransformer_Transform_def Let_def by simp

lemma Transpose_Transform_state:
  "m_inputStream_T (snd (SlimTransposeTransformer_Transform t s)) = s"
  unfolding SlimTransposeTransformer_Transform_def Let_def by simp

subsection \<open>C4: what the negotiation of the stream rejects\<close>

text \<open>
  Claim C4, as amended. For every input stream:
  \<^item> a stream that is not dense is rejected by the negotiation of every transformer
    (a \<^verbatim>\<open>LogicError\<close>);
  \<^item> a dense stream whose element type is neither \<^verbatim>\<open>float\<close> nor \<^verbatim>\<open>double\<close> is rejected by the
    negotiation of the transformers built on the image transformer base (crop, scale,
    mean; a \<^verbatim>\<open>RuntimeError\<close>), whereas the negotiation of the transpose transformer
    accepts it and the transpose transformer rejects every sample of it, with the same
    error, in its per-sample transformation;
  \<^item> a dense stream of \<^verbatim>\<open>float\<close> or \<^verbatim>\<open>double\<close> is accepted by both;
  \<^item> when the negotiation fails, the run over the stream ends with that error, whatever
    the samples and the per-sample transformation: no sample is processed.
\<close>

theorem negotiation_checks:
  fixes this :: "'z SlimImageTransformerBase_scheme" and t :: SlimTransposeTransformer
    and sequence :: "('a::zero) DenseSequenceData"
  shows
  "(m_storageType s \<noteq> dense \<longrightarrow>
      fst (SlimImageTransformerBase_Transform this s) =
        Inl (LogicError ''ImageTransformerBase supports only dense input streams.'') \<and>
      fst (SlimTransposeTransformer_Transform t s) =
        Inl (LogicError ''Transpose transformer supports only dense streams.'')) \<and>
   (m_storageType s = dense \<and> m_elementType s \<noteq> tfloat \<and> m_elementType s \<noteq> tdouble \<longrightarrow>
      fst (SlimImageTransformerBase_Transform this s) = Inl (RuntimeError ''Unsupported type'') \<and>
      fst (SlimTransposeTransformer_Transform t s) =
        Inr (s \<lparr> m_sampleLayout := AsTensorShape (ImageDimensions_of (m_sampleLayout s) HWC) CHW \<rparr>) \<and>
      SlimTransposeTransformer_Transform_seq NDEBUG (snd (SlimTransposeTransformer_Transform t s)) sequence =
        Inl (RuntimeError ''Unsupported type'')) \<and>
   (m_storageType s = dense \<and> (m_elementType s = tfloat \<or> m_elementType s = tdouble) \<longrightarrow>
      fst (SlimImageTransformerBase_Transform this s) = Inr s \<and>
      fst (SlimTransposeTransformer_Transform t s) =
        Inr (s \<lparr> m_sampleLayout := AsTensorShape (ImageDimensions_of (m_sampleLayout s) HWC) CHW \<rparr>)) \<and>
   (\<forall>e. fst (SlimImageTransformerBase_Transform this s) = Inl e \<longrightarrow>
      process_stream SlimImageTransformerBase_Transform transform this s samples p = Inl e) \<and>
   (\<forall>e. fst (SlimTransposeTransformer_Transform t s) = Inl e \<longrightarrow>
      process_stream SlimTransposeTransformer_Transform transform' t s samples' p' = Inl e)"
proof (intro conjI impI allI)
  fix e
  assume "fst (SlimImageTransformerBase_Transform this s) = Inl e"
  then show "process_stream SlimImageTransformerBase_Transform transform this s samples p = Inl e"
    by (rule process_stream_negotiation_error)
next
  fix e
  assume "fst (SlimTransposeTransformer_Transform t s) = Inl e"
  then show "process_stream SlimTransposeTransformer_Transform transform' t s samples' p' = Inl e"
    by (rule process_stream_negotiation_error)
next
  assume a: "m_storageType s = dense \<and> m_elementType s \<noteq> tfloat \<and> m_elementType s \<noteq> tdouble"
  then show "SlimTransposeTransformer_Transform_seq NDEBUG (snd (SlimTransposeTransformer_Transform t s)) sequence =
        Inl (RuntimeError ''Unsupported type'')"
    unfolding SlimTransposeTransformer_Transform_seq_def Transpose_Transform_state by simp
qed (auto simp add: Base_Transform_outcome Transpose_Transform_outcome)

theorem negotiation_checks_witness:
  "m_storageType sparse_stream \<noteq> dense \<and>
   fst (SlimImageTransformerBase_Transform blank_crop sparse_stream) =
     Inl (LogicError ''ImageTransformerBase supports only dense input streams.'') \<and>
   fst (SlimTransposeTransformer_Transform blank_transpose sparse_stream) =
     Inl (LogicError ''Transpose transformer supports only dense streams.'') \<and>
   m_storageType atom_stream = dense \<and> m_elementType atom_stream \<noteq> tfloat \<and>
   m_elementType atom_stream \<noteq> tdouble \<and>
   fst (SlimImageTransformerBase_Transform blank_crop atom_stream) =
     Inl (RuntimeError ''Unsupported type'') \<and>
   process_stream SlimImageTransformerBase_Transform
     (SlimImageTransformerBase_Transform_seq (SlimCropTransformer_Apply_virtual True counter_lib blank_crop))
     blank_crop atom_stream [sample_3x2x2] [] = Inl (RuntimeError ''Unsupported type'') \<and>
   m_storageType float_stream = dense \<and> m_elementType float_stream = tfloat \<and>
   fst (SlimImageTransformerBase_Transform blank_crop float_stream) = Inr float_stream"
proof -
  have s: "m_storageType sparse_stream \<noteq> dense" "m_storageType atom_stream = dense"
    "m_elementType atom_stream \<noteq> tfloat" "m_elementType atom_stream \<noteq> tdouble"
    "m_storageType float_stream = dense" "m_elementType float_stream = tfloat"
    by (simp_all add: sparse_stream_def atom_stream_def float_stream_def)
  note n1 = negotiation_checks [of sparse_stream blank_crop blank_transpose, THEN conjunct1]
  note n2 = negotiation_checks [where s = atom_stream and this = blank_crop
              and t = blank_transpose and sequence = sample_3x2x2,
              THEN conjunct2, THEN conjunct1]
  note n3 = negotiation_checks [of float_stream blank_crop blank_transpose,
              THEN conjunct2, THEN conjunct2, THEN conjunct1]
  note n4 = negotiation_checks [where s = atom_stream and this = blank_crop
              and t = blank_transpose and transform =
              "SlimImageTransformerBase_Transform_seq (SlimCropTransformer_Apply_virtual True counter_lib blank_crop)"
              and samples = "[sample_3x2x2]" and p = "[]",
              THEN conjunct2, THEN conjunct2, THEN conjunct2, THEN conjunct1]
  from n1 s have 1: "fst (SlimImageTransformerBase_Transform blank_crop sparse_stream) =
     Inl (LogicError ''ImageTransformerBase supports only dense input streams.'')"
    "fst (SlimTransposeTransformer_Transform blank_transpose sparse_stream) =
     Inl (LogicError ''Transpose transformer supports only dense streams.'')" by simp_all
  from n2 s have 2: "fst (SlimImageTransformerBase_Transform blank_crop atom_stream) =
     Inl (RuntimeError ''Unsupported type'')" by simp
  from n3 s have 3: "fst (SlimImageTransformerBase_Transform blank_crop float_stream) = Inr float_stream"
    by simp
  from n4 2 have 4: "process_stream SlimImageTransformerBase_Transform
     (SlimImageTransformerBase_Transform_seq (SlimCropTransformer_Apply_virtual True counter_lib blank_crop))
     blank_crop atom_stream [sample_3x2x2] [] = Inl (RuntimeError ''Unsupported type'')"
    by blast
  from s 1 2 3 4 show ?thesis by (intro conjI)
qed

text \<open>
  Claim C4 as stated fails for the transpose transformer: a dense stream of an
  unsupported element type passes its negotiation, and the error is raised by the
  transformation of the first sample.
\<close>

theorem transpose_negotiation_accepts_unsupported_width:
  "m_storageType atom_stream = dense \<and> m_elementType atom_stream = tatom \<and>
   fst (SlimTransposeTransformer_Transform blank_transpose atom_stream) =
     Inr (atom_stream \<lparr> m_sampleLayout := TensorShape 2 2 3 \<rparr>) \<and>
   process_stream SlimTransposeTransformer_Transform
     (\<lambda>this sequence p. (SlimTransposeTransformer_Transform_seq True this sequence, p))
     blank_transpose atom_stream [sample_3x2x2] () = Inl (RuntimeError ''Unsupported type'')"
  by (simp add: atom_stream_def process_stream_def SlimTransposeTransformer_Transform_def
        SlimTransposeTransformer_Transform_seq_def Let_def)

subsection \<open>The loops of the transpose transformer\<close>

lemma fold_upt_Suc: "fold f [0 ..< Suc k] d = f k (fold f [0 ..< k] d)"
  by simp

lemma inner_loop_length:
  "length (fold (\<lambda>icol dst. dst [icol * R + irow := src ! (irow * C + icol)]) [0 ..< k] d) = length d"
  by (induction k) simp_all

lemma inner_loop_nth:
  assumes "j < length d" "0 < R" "irow < R"
  shows "fold (\<lambda>icol dst. dst [icol * R + irow := src ! (irow * C + icol)]) [0 ..< k] d ! j =
         (if j mod R = irow \<and> j div R < k then src ! (irow * C + j div R) else d ! j)"
proof (induction k)
  case 0
  show ?case by simp
next
  case (Suc k)
  let ?d = "fold (\<lambda>icol dst. dst [icol * R + irow := src ! (irow * C + icol)]) [0 ..< k] d"
  have len: "j < length ?d" using assms(1) by (simp add: inner_loop_length)
  have eq: "(k * R + irow = j) \<longleftrightarrow> (j mod R = irow \<and> j div R = k)"
  proof
    assume "k * R + irow = j"
    then have j: "j = irow + k * R" by simp
    show "j mod R = irow \<and> j div R = k"
      unfolding j using assms(2,3) by simp
  next
    assume "j mod R = irow \<and> j div R = k"
    then have "k * R + irow = j div R * R + j mod R" by simp
    then show "k * R + irow = j" by simp
  qed
  show ?case
  proof (cases "k * R + irow = j")
    case True
    with eq have "j mod R = irow" "j div R = k" by simp_all
    with True len show ?thesis
      unfolding fold_upt_Suc by simp
  next
    case False
    with eq have ne: "\<not> (j mod R = irow \<and> j div R = k)" by simp
    have "fold (\<lambda>icol dst. dst [icol * R + irow := src ! (irow * C + icol)]) [0 ..< Suc k] d ! j = ?d ! j"
      unfolding fold_upt_Suc using False by simp
    also have "\<dots> = (if j mod R = irow \<and> j div R < k then src ! (irow * C + j div R) else d ! j)"
      by (rule Suc.IH)
    also have "\<dots> = (if j mod R = irow \<and> j div R < Suc k then src ! (irow * C + j div R) else d ! j)"
      using ne by (auto simp: less_Suc_eq)
    finally show ?thesis .
  qed
qed

lemma TypedApply_loop_length:
  "length (TypedApply_loop R C src d) = length d"
proof -
  have "length (fold (\<lambda>irow dst.
             fold (\<lambda>icol dst. dst [icol * R + irow := src ! (irow * C + icol)])
                  [0 ..< C] dst) [0 ..< n] d) = length d" for n
    by (induction n) (simp_all add: inner_loop_length)
  then show ?thesis unfolding TypedApply_loop_def .
qed

lemma outer_loop_nth:
  assumes "j < length d" "length d = R * C" "n \<le> R"
  shows "fold (\<lambda>irow dst.
             fold (\<lambda>icol dst. dst [icol * R + irow := src ! (irow * C + icol)])
                  [0 ..< C] dst) [0 ..< n] d ! j =
         (if j mod R < n then src ! ((j mod R) * C + j div R) else d ! j)"
  using assms(3)
proof (induction n)
  case 0
  show ?case by simp
next
  case (Suc n)
  let ?inner = "\<lambda>irow dst. fold (\<lambda>icol dst. dst [icol * R + irow := src ! (irow * C + icol)])
                  [0 ..< C] dst"
  let ?d = "fold ?inner [0 ..< n] d"
  have R0: "0 < R" using Suc.prems by simp
  have nR: "n < R" using Suc.prems by simp
  have len: "length ?d = length d" by (induction n) (simp_all add: inner_loop_length)
  then have jl: "j < length ?d" using assms(1) by simp
  have jC: "j div R < C"
    using assms(1,2) R0 by (simp add: less_mult_imp_div_less mult.commute)
  have "fold ?inner [0 ..< Suc n] d ! j = ?inner n ?d ! j"
    unfolding fold_upt_Suc ..
  also have "\<dots> = (if j mod R = n \<and> j div R < C then src ! (n * C + j div R) else ?d ! j)"
    using jl R0 nR by (rule inner_loop_nth)
  also have "\<dots> = (if j mod R = n then src ! ((j mod R) * C + j div R) else ?d ! j)"
    using jC by simp
  also have "\<dots> = (if j mod R = n then src ! ((j mod R) * C + j div R)
                    else if j mod R < n then src ! ((j mod R) * C + j div R) else d ! j)"
    using Suc.IH Suc.prems by simp
  also have "\<dots> = (if j mod R < Suc n then src ! ((j mod R) * C + j div R) else d ! j)"
    by (auto simp: less_Suc_eq)
  finally show ?case .
qed

lemma TypedApply_loop_nth:
  assumes "j < R * C" "length d = R * C"
  shows "TypedApply_loop R C src d ! j = src ! ((j mod R) * C + j div R)"
proof -
  have R0: "0 < R" using assms(1) by (cases R) simp_all
  have "j < length d" using assms by simp
  from outer_loop_nth [OF this assms(2) le_refl, of src] R0
  show ?thesis unfolding TypedApply_loop_def by simp
qed

lemma TypedApply_loop_offsets:
  assumes "p < R" "c < C" "length d = R * C"
  shows "TypedApply_loop R C src d ! (c * R + p) = src ! (p * C + c)"
proof -
  have "c * R + p < R * C"
  proof -
    have "c * R + p < c * R + R" using assms(1) by simp
    also have "\<dots> = Suc c * R" by simp
    also have "\<dots> \<le> C * R" using assms(2) by (intro mult_le_mono1) simp
    finally show ?thesis by (simp add: mult.commute)
  qed
  from TypedApply_loop_nth [OF this assms(3), of src] assms(1)
  show ?thesis by simp
qed

lemma planar_to_interleaved_loop:
  assumes "length src = R * C" "length d = R * C"
  shows "planar_to_interleaved R C (TypedApply_loop R C src d) = src"
proof (rule nth_equalityI)
  show "length (planar_to_interleaved R C (TypedApply_loop R C src d)) = length src"
    unfolding planar_to_interleaved_def using assms by simp
next
  fix i
  assume "i < length (planar_to_interleaved R C (TypedApply_loop R C src d))"
  then have i: "i < R * C" unfolding planar_to_interleaved_def by simp
  then have C0: "0 < C" by (cases C) simp_all
  have p: "i div C < R" using i C0 by (simp add: less_mult_imp_div_less)
  have c: "i mod C < C" using C0 by simp
  have "planar_to_interleaved R C (TypedApply_loop R C src d) ! i =
        TypedApply_loop R C src d ! ((i mod C) * R + i div C)"
    unfolding planar_to_interleaved_def using i by simp
  also have "\<dots> = src ! ((i div C) * C + i mod C)"
    using p c assms(2) by (rule TypedApply_loop_offsets)
  also have "\<dots> = src ! i" by simp
  finally show "planar_to_interleaved R C (TypedApply_loop R C src d) ! i = src ! i" .
qed

text \<open>The inverse mapping is the loop of the source on the transposed dimensions.\<close>

lemma planar_to_interleaved_is_loop:
  assumes "length d = R * C"
  shows "planar_to_interleaved R C planar = TypedApply_loop C R planar d"
proof (rule nth_equalityI)
  show "length (planar_to_interleaved R C planar) = length (TypedApply_loop C R planar d)"
    unfolding planar_to_interleaved_def using assms by (simp add: TypedApply_loop_length)
next
  fix i
  assume "i < length (planar_to_interleaved R C planar)"
  then have i: "i < R * C" unfolding planar_to_interleaved_def by simp
  then have i': "i < C * R" by (simp add: mult.commute)
  have d': "length d = C * R" using assms by (simp add: mult.commute)
  show "planar_to_interleaved R C planar ! i = TypedApply_loop C R planar d ! i"
    unfolding TypedApply_loop_nth [OF i' d'] planar_to_interleaved_def using i by simp
qed

subsection \<open>C5: the transposition and its inverse\<close>

text \<open>
  Claim C5. For every buffer of one sample with \<open>rows\<close> (\<open>h\<close>), \<open>cols\<close> (\<open>w\<close>) and
  \<open>channelCount\<close>, holding \<open>h * w * channelCount\<close> elements, the transpose transformer
  returns a buffer of the same length in which the element at planar offset
  \<open>c * (h * w) + p\<close> is the element at interleaved offset \<open>p * channelCount + c\<close> of the
  input, for every spatial position \<open>p\<close> and channel \<open>c\<close>; and the inverse mapping, planar
  back to interleaved, gives back the input buffer. The per-sample transformation is
  this function for both element types, \<^verbatim>\<open>float\<close> and \<^verbatim>\<open>double\<close>.
\<close>

theorem transpose_maps_and_round_trips:
  fixes this :: SlimTransposeTransformer and inputSequence :: "('a::zero) DenseSequenceData"
  assumes lay: "m_sampleLayout (m_inputStream_T this) = TensorShape channelCount w h"
    and one: "m_numberOfSamples inputSequence = 1"
    and len: "length (m_data inputSequence) = h * w * channelCount"
  shows "\<exists>res. TypedApply NDEBUG this inputSequence = Inr res \<and>
           (m_elementType (m_inputStream_T this) = tfloat \<or>
            m_elementType (m_inputStream_T this) = tdouble \<longrightarrow>
              SlimTransposeTransformer_Transform_seq NDEBUG this inputSequence = Inr res) \<and>
           length (m_data res) = h * w * channelCount \<and>
           (\<forall>p c. p < h * w \<and> c < channelCount \<longrightarrow>
              m_data res ! (c * (h * w) + p) = m_data inputSequence ! (p * channelCount + c)) \<and>
           planar_to_interleaved (h * w) channelCount (m_data res) = m_data inputSequence"
proof -
  define dst0 :: "'a list" where "dst0 = replicate (GetNumElements (TensorShape channelCount w h)) 0"
  define res where "res = \<lparr> m_id = 0,
     m_data = TypedApply_loop (h * w) channelCount (m_data inputSequence) dst0,
     m_numberOfSamples = m_numberOfSamples inputSequence,
     m_sampleLayout_seq = m_sampleLayout (m_outputStream_T this) \<rparr>"
  have d0: "length dst0 = h * w * channelCount"
    unfolding dst0_def by (simp add: mult.commute mult.left_commute)
  have ap: "TypedApply NDEBUG this inputSequence = Inr res"
    unfolding TypedApply_def Let_def res_def dst0_def lay using one by simp
  have sq: "SlimTransposeTransformer_Transform_seq NDEBUG this inputSequence = Inr res"
    if "m_elementType (m_inputStream_T this) = tfloat \<or>
        m_elementType (m_inputStream_T this) = tdouble"
    using that ap unfolding SlimTransposeTransformer_Transform_seq_def by auto
  have dat: "m_data res = TypedApply_loop (h * w) channelCount (m_data inputSequence) dst0"
    unfolding res_def by simp
  have l: "length (m_data res) = h * w * channelCount"
    unfolding dat TypedApply_loop_length by (rule d0)
  have off: "m_data res ! (c * (h * w) + p) = m_data inputSequence ! (p * channelCount + c)"
    if "p < h * w \<and> c < channelCount" for p c
    unfolding dat using that d0 by (intro TypedApply_loop_offsets) simp_all
  have rt: "planar_to_interleaved (h * w) channelCount (m_data res) = m_data inputSequence"
    unfolding dat using len d0 by (rule planar_to_interleaved_loop)
  from ap sq l off rt show ?thesis by blast
qed

theorem transpose_maps_and_round_trips_witness:
  "m_sampleLayout (m_inputStream_T (blank_transpose \<lparr> m_inputStream_T := float_stream \<rparr>)) =
     TensorShape 3 2 2 \<and>
   m_numberOfSamples sample_3x2x2 = 1 \<and> length (m_data sample_3x2x2) = 2 * 2 * 3 \<and>
   (\<exists>res. TypedApply True (blank_transpose \<lparr> m_inputStream_T := float_stream \<rparr>) sample_3x2x2 = Inr res \<and>
      SlimTransposeTransformer_Transform_seq True (blank_transpose \<lparr> m_inputStream_T := float_stream \<rparr>)
        sample_3x2x2 = Inr res \<and>
      m_data res = [0, 3, 6, 9, 1, 4, 7, 10, 2, 5, 8, 11] \<and>
      m_data res ! (2 * (2 * 2) + 1) = m_data sample_3x2x2 ! (1 * 3 + 2) \<and>
      planar_to_interleaved (2 * 2) 3 (m_data res) = m_data sample_3x2x2)"
proof -
  have lp: "TypedApply_loop 4 3 [0 ..< 12] (replicate 12 (0::nat)) =
              [0, 3, 6, 9, 1, 4, 7, 10, 2, 5, 8, 11]"
    by code_simp
  have ev: "TypedApply True (blank_transpose \<lparr> m_inputStream_T := float_stream \<rparr>) sample_3x2x2 =
     Inr \<lparr> m_id = 0, m_data = [0, 3, 6, 9, 1, 4, 7, 10, 2, 5, 8, 11], m_numberOfSamples = 1,
           m_sampleLayout_seq = TensorShape 0 0 0 \<rparr>"
    by (simp add: TypedApply_def float_stream_def sample_3x2x2_def blank_transpose_def
          blank_stream_def lp)
  have h: "m_sampleLayout (m_inputStream_T (blank_transpose \<lparr> m_inputStream_T := float_stream \<rparr>)) =
     TensorShape 3 2 2"
    "m_numberOfSamples sample_3x2x2 = 1" "length (m_data sample_3x2x2) = 2 * 2 * 3"
    "m_elementType (m_inputStream_T (blank_transpose \<lparr> m_inputStream_T := float_stream \<rparr>)) = tfloat"
    by (simp_all add: float_stream_def sample_3x2x2_def)
  from transpose_maps_and_round_trips [OF h(1) h(2) h(3)] h(4)
  obtain res where
    r: "TypedApply True (blank_transpose \<lparr> m_inputStream_T := float_stream \<rparr>) sample_3x2x2 = Inr res"
       "SlimTransposeTransformer_Transform_seq True (blank_transpose \<lparr> m_inputStream_T := float_stream \<rparr>)
          sample_3x2x2 = Inr res"
       "\<forall>p c. p < 2 * 2 \<and> c < 3 \<longrightarrow>
              m_data res ! (c * (2 * 2) + p) = m_data sample_3x2x2 ! (p * 3 + c)"
       "planar_to_interleaved (2 * 2) 3 (m_data res) = m_data sample_3x2x2"
    by blast
  from r(3) have "m_data res ! (2 * (2 * 2) + 1) = m_data sample_3x2x2 ! (1 * 3 + 2)"
    by (intro r(3) [rule_format]) simp
  moreover from r(1) ev have "m_data res = [0, 3, 6, 9, 1, 4, 7, 10, 2, 5, 8, 11]" by auto
  ultimately show ?thesis using h r by blast
qed

subsection \<open>Conversions and the steps of the scale transformer\<close>

lemma int_of_size_t_small: "n < 2 ^ 31 \<Longrightarrow> int_of_size_t n = int n"
proof -
  assume a: "n < 2 ^ 31"
  have "signed_take_bit 31 (int n) = int n"
    using a by (intro signed_take_bit_int_eq_self) simp_all
  then show ?thesis unfolding int_of_size_t_def by (simp add: signed_of_nat)
qed

lemma size_t_of_int_nat: "size_t_of_int (int n) = n mod 2 ^ 64"
  unfolding size_t_of_int_def by (simp add: nat_mod_distrib)

lemma CV_MAT_CN_MAKETYPE: "1 \<le> c \<Longrightarrow> c \<le> 512 \<Longrightarrow> CV_MAT_CN (CV_MAKETYPE d c) = c"
proof -
  assume a: "1 \<le> c" "c \<le> 512"
  have "(d mod 8 + (c - 1) * 8) div 8 = c - 1" by simp
  moreover have "(c - 1) mod 512 = c - 1" using a by simp
  ultimately show ?thesis unfolding CV_MAT_CN_def CV_MAKETYPE_def by simp
qed

lemma SlimScaleTransformer_ctor_fields:
  assumes "SlimScaleTransformer_ctor config this0 = Inr t0"
  shows "m_imgWidth t0 = cfg_width config" "m_imgHeight t0 = cfg_height config"
    "m_imgChannels t0 = cfg_channels config" "m_interp t0 \<noteq> []"
    "0 < cfg_width config" "0 < cfg_height config" "0 < cfg_channels config"
proof -
  let ?found = "parse_interp (getline_tokens []
                      (case cfg_interpolations config of None \<Rightarrow> [] | Some v \<Rightarrow> v))"
  have nz: "(cfg_width config * cfg_height config * cfg_channels config) mod 2 ^ 64 \<noteq> 0"
    and t0: "t0 = (SlimImageTransformerBase_ctor config this0)
        \<lparr> m_imgWidth := cfg_width config, m_imgHeight := cfg_height config,
          m_imgChannels := cfg_channels config,
          m_interp := (if length ?found = 0 then [INTER_LINEAR] else ?found) \<rparr>"
    using assms unfolding SlimScaleTransformer_ctor_def Let_def
    by (simp_all split: if_splits)
  from t0 show "m_imgWidth t0 = cfg_width config" "m_imgHeight t0 = cfg_height config"
    "m_imgChannels t0 = cfg_channels config" by simp_all
  from t0 show "m_interp t0 \<noteq> []" by simp
  from nz have "cfg_width config * cfg_height config * cfg_channels config \<noteq> 0"
    by (metis mod_0)
  then show "0 < cfg_width config" "0 < cfg_height config" "0 < cfg_channels config"
    by simp_all
qed

lemma negotiation_keeps_scale_fields:
  fixes t0 :: SlimScaleTransformer
  shows "m_imgWidth (snd (SlimImageTransformerBase_Transform t0 s)) = m_imgWidth t0"
    "m_imgHeight (snd (SlimImageTransformerBase_Transform t0 s)) = m_imgHeight t0"
    "m_imgChannels (snd (SlimImageTransformerBase_Transform t0 s)) = m_imgChannels t0"
    "m_interp (snd (SlimImageTransformerBase_Transform t0 s)) = m_interp t0"
  unfolding SlimImageTransformerBase_Transform_def Let_def by simp_all

lemma convertTo_shape:
  "rows (convertTo cv m t) = rows m" "cols (convertTo cv m t) = cols m"
  "channels (convertTo cv m t) = channels m"
  unfolding convertTo_def by simp_all

lemma SlimScaleTransformer_Apply_shape:
  assumes "m_interp this \<noteq> []" "0 < cols mat" "0 < rows mat"
    "0 < int_of_size_t (m_imgWidth this)" "0 < int_of_size_t (m_imgHeight this)"
  shows "\<exists>mat2 pool. SlimScaleTransformer_Apply NDEBUG cv lib this sid mat m_rngs = (Inr mat2, pool) \<and>
           rows mat2 = int_of_size_t (m_imgHeight this) \<and>
           cols mat2 = int_of_size_t (m_imgWidth this) \<and> channels mat2 = channels mat"
proof -
  define mat1 where "mat1 =
     (if Mat_type mat \<noteq> CV_MAKETYPE (m_imageElementType this) (int (m_imgChannels this))
      then convertTo cv mat (m_imageElementType this) else mat)"
  have m1: "rows mat1 = rows mat" "cols mat1 = cols mat" "channels mat1 = channels mat"
    unfolding mat1_def by (simp_all add: convertTo_shape)
  obtain rng pool where p: "pop_or_create (\<lambda>_. mt19937 lib (m_seed this)) m_rngs = (rng, pool)"
    by fastforce
  obtain index rng1 where u: "UniIntT lib 0 (int (length (m_interp this)) - 1) rng = (index, rng1)"
    by fastforce
  have rs: "cv_resize cv mat1 (int_of_size_t (m_imgWidth this)) (int_of_size_t (m_imgHeight this))
              (m_interp this ! nat index) =
            Inr (mat1 \<lparr> rows := int_of_size_t (m_imgHeight this),
                        cols := int_of_size_t (m_imgWidth this),
                        elems := cv_resample cv mat1 (int_of_size_t (m_imgWidth this))
                                   (int_of_size_t (m_imgHeight this)) (m_interp this ! nat index) \<rparr>)"
    unfolding cv_resize_def using assms m1 by simp
  have "SlimScaleTransformer_Apply NDEBUG cv lib this sid mat m_rngs =
          (Inr (mat1 \<lparr> rows := int_of_size_t (m_imgHeight this),
                        cols := int_of_size_t (m_imgWidth this),
                        elems := cv_resample cv mat1 (int_of_size_t (m_imgWidth this))
                                   (int_of_size_t (m_imgHeight this)) (m_interp this ! nat index) \<rparr>),
           push rng1 pool)"
    unfolding SlimScaleTransformer_Apply_def Let_def mat1_def [symmetric] p prod.case u rs
    using assms(1) by simp
  then show ?thesis using m1 by simp
qed

lemma Transform_seq_layout:
  assumes lay: "m_sampleLayout_seq sequence = TensorShape c w h"
    and dims: "w < 2 ^ 31" "h < 2 ^ 31" "1 \<le> c" "c \<le> 512"
    and ap: "\<And>mat. rows mat = int h \<Longrightarrow> cols mat = int w \<Longrightarrow> channels mat = int c \<Longrightarrow>
       \<exists>mat2 pool. Apply (m_id sequence) mat m_rngs = (Inr mat2, pool) \<and>
          rows mat2 = int H \<and> cols mat2 = int W \<and> channels mat2 = channels mat"
    and out: "W < 2 ^ 64" "H < 2 ^ 64"
  shows "\<exists>res pool. SlimImageTransformerBase_Transform_seq Apply this sequence m_rngs = (Inr res, pool) \<and>
           m_sampleLayout_seq res = TensorShape c W H"
proof -
  define buffer where "buffer = Mat_of (int_of_size_t h) (int_of_size_t w)
     (CV_MAKETYPE (m_imageElementType this) (int_of_size_t c)) (m_data sequence)"
  have c31: "c < 2 ^ 31" using dims(4) by simp
  have b: "rows buffer = int h" "cols buffer = int w" "channels buffer = int c"
    unfolding buffer_def Mat_of_def
    using dims by (simp_all add: int_of_size_t_small c31 CV_MAT_CN_MAKETYPE)
  from ap [OF b] obtain mat2 pool where
    a: "Apply (m_id sequence) buffer m_rngs = (Inr mat2, pool)"
    and s: "rows mat2 = int H" "cols mat2 = int W" "channels mat2 = int c"
    using b(3) by auto
  have c64: "c < 2 ^ 64" using dims(4) by simp
  have "SlimImageTransformerBase_Transform_seq Apply this sequence m_rngs =
     (Inr \<lparr> m_id = 0, m_data = elems mat2, m_numberOfSamples = m_numberOfSamples sequence,
            m_sampleLayout_seq = TensorShape c W H \<rparr>, pool)"
    unfolding SlimImageTransformerBase_Transform_seq_def Let_def lay ImageDimensions_of.simps
      ImageDimensions.simps buffer_def [symmetric] a
    using s out c64 by (simp add: size_t_of_int_nat)
  then show ?thesis by simp
qed

subsection \<open>C6: the shape that the scale transformer declares\<close>

text \<open>
  Claim C6, as amended. Take a scale transformer as its constructor and the negotiation
  leave it, with a target width and height that fit the type \<^verbatim>\<open>int\<close>. For every sample
  of \<open>w \<times> h\<close> pixels with \<open>c\<close> channels (non-empty, \<open>c\<close> between \<open>1\<close> and the \<open>512\<close> channels an
  image type can encode), whatever \<open>w\<close> and \<open>h\<close>, the per-sample transformation succeeds
  and declares the shape: configured width, configured height and the \<open>c\<close> channels of
  the input. This is the configured width \<open>\<times>\<close> height \<open>\<times>\<close> channel count exactly when the
  input has the configured number of channels.
\<close>

theorem scale_output_shape:
  fixes this0 t0 this :: SlimScaleTransformer and sequence :: "'a DenseSequenceData"
  assumes lib: "stdlib_ok lib"
    and ctor: "SlimScaleTransformer_ctor config this0 = Inr t0"
    and neg: "this = snd (SlimImageTransformerBase_Transform t0 inputStream)"
    and target: "cfg_width config < 2 ^ 31" "cfg_height config < 2 ^ 31"
    and lay: "m_sampleLayout_seq sequence = TensorShape c w h"
    and dims: "0 < w" "w < 2 ^ 31" "0 < h" "h < 2 ^ 31" "1 \<le> c" "c \<le> 512"
  shows "\<exists>res pool.
           SlimImageTransformerBase_Transform_seq (SlimScaleTransformer_Apply NDEBUG cv lib this) this
             sequence m_rngs = (Inr res, pool) \<and>
           m_sampleLayout_seq res = TensorShape c (cfg_width config) (cfg_height config) \<and>
           (m_sampleLayout_seq res =
              TensorShape (cfg_channels config) (cfg_width config) (cfg_height config)
            \<longleftrightarrow> c = cfg_channels config)"
proof -
  note f = SlimScaleTransformer_ctor_fields [OF ctor]
  have W: "m_imgWidth this = cfg_width config" and H: "m_imgHeight this = cfg_height config"
    and I: "m_interp this \<noteq> []"
    unfolding neg negotiation_keeps_scale_fields using f by simp_all
  have iw: "int_of_size_t (m_imgWidth this) = int (cfg_width config)"
    and ih: "int_of_size_t (m_imgHeight this) = int (cfg_height config)"
    unfolding W H using target by (simp_all add: int_of_size_t_small)
  have ap: "\<exists>mat2 pool. SlimScaleTransformer_Apply NDEBUG cv lib this (m_id sequence) mat m_rngs = (Inr mat2, pool) \<and>
          rows mat2 = int (cfg_height config) \<and> cols mat2 = int (cfg_width config) \<and>
          channels mat2 = channels mat"
    if "rows mat = int h" "cols mat = int w" "channels mat = int c" for mat :: "'a Mat"
    using SlimScaleTransformer_Apply_shape [where this = this and mat = mat and cv = cv and lib = lib
        and sid = "m_id sequence" and m_rngs = m_rngs and NDEBUG = NDEBUG]
      I that dims f(5,6) unfolding iw ih by simp
  have o: "cfg_width config < 2 ^ 64" "cfg_height config < 2 ^ 64"
    using target by (simp_all add: less_trans [where y = "2 ^ 31"])
  from Transform_seq_layout [where Apply = "SlimScaleTransformer_Apply NDEBUG cv lib this"
         and m_rngs = m_rngs and this = this and W = "cfg_width config" and H = "cfg_height config",
         OF lay dims(2) dims(4) dims(5) dims(6) ap o]
  obtain res pool where
    r: "SlimImageTransformerBase_Transform_seq (SlimScaleTransformer_Apply NDEBUG cv lib this) this
             sequence m_rngs = (Inr res, pool)"
      "m_sampleLayout_seq res = TensorShape c (cfg_width config) (cfg_height config)"
    by blast
  then show ?thesis by auto
qed

lemma scale_2x2x3_built:
  "SlimScaleTransformer_ctor default_config blank_scale =
     Inr (blank_scale \<lparr> m_imgWidth := 2, m_imgHeight := 2, m_imgChannels := 3,
                         m_interp := [INTER_LINEAR] \<rparr>)"
  "snd (SlimImageTransformerBase_Transform
          (blank_scale \<lparr> m_imgWidth := 2, m_imgHeight := 2, m_imgChannels := 3,
                         m_interp := [INTER_LINEAR] \<rparr>) float_stream) = scale_2x2x3"
  by (simp_all add: SlimScaleTransformer_ctor_def SlimImageTransformerBase_ctor_def
        default_config_def blank_scale_def SlimImageTransformerBase_Transform_def
        float_stream_def scale_2x2x3_def)

theorem scale_output_shape_witness:
  "stdlib_ok counter_lib \<and>
   SlimScaleTransformer_ctor default_config blank_scale =
     Inr (blank_scale \<lparr> m_imgWidth := 2, m_imgHeight := 2, m_imgChannels := 3,
                         m_interp := [INTER_LINEAR] \<rparr>) \<and>
   scale_2x2x3 = snd (SlimImageTransformerBase_Transform
          (blank_scale \<lparr> m_imgWidth := 2, m_imgHeight := 2, m_imgChannels := 3,
                         m_interp := [INTER_LINEAR] \<rparr>) float_stream) \<and>
   m_sampleLayout_seq sample_3x2x2 = TensorShape 3 2 2 \<and>
   (\<exists>res pool.
      SlimImageTransformerBase_Transform_seq (SlimScaleTransformer_Apply True plain_cv counter_lib scale_2x2x3)
        scale_2x2x3 sample_3x2x2 [] = (Inr res, pool) \<and>
      m_sampleLayout_seq res = TensorShape 3 2 2)"
proof -
  have l: "m_sampleLayout_seq sample_3x2x2 = TensorShape 3 2 2"
    by (simp add: sample_3x2x2_def)
  have c: "cfg_width default_config = 2" "cfg_height default_config = 2"
    "cfg_channels default_config = 3"
    by (simp_all add: default_config_def)
  from scale_output_shape [OF counter_lib_ok scale_2x2x3_built(1) scale_2x2x3_built(2) [symmetric]
        _ _ l, where cv = plain_cv and m_rngs = "[]" and NDEBUG = True]
  have "\<exists>res pool.
      SlimImageTransformerBase_Transform_seq (SlimScaleTransformer_Apply True plain_cv counter_lib scale_2x2x3)
        scale_2x2x3 sample_3x2x2 [] = (Inr res, pool) \<and>
      m_sampleLayout_seq res = TensorShape 3 2 2"
    unfolding c by simp
  with counter_lib_ok scale_2x2x3_built l show ?thesis by simp
qed

text \<open>
  Claim C6 as stated fails: with the target \<open>2 \<times> 2\<close> and three channels configured, a
  sample of \<open>4 \<times> 4\<close> pixels with one channel is resized to \<open>2 \<times> 2\<close> pixels with one
  channel.
\<close>

theorem scale_keeps_input_channels:
  "SlimScaleTransformer_ctor default_config blank_scale =
     Inr (blank_scale \<lparr> m_imgWidth := 2, m_imgHeight := 2, m_imgChannels := 3,
                         m_interp := [INTER_LINEAR] \<rparr>) \<and>
   SlimImageTransformerBase_Transform
     (blank_scale \<lparr> m_imgWidth := 2, m_imgHeight := 2, m_imgChannels := 3,
                    m_interp := [INTER_LINEAR] \<rparr>) float_stream = (Inr float_stream, scale_2x2x3) \<and>
   SlimImageTransformerBase_Transform_seq (SlimScaleTransformer_Apply True plain_cv counter_lib scale_2x2x3)
     scale_2x2x3 sample_1x4x4 [] =
     (Inr \<lparr> m_id = 0, m_data = [0, 0, 0, 0], m_numberOfSamples = 1,
            m_sampleLayout_seq = TensorShape 1 2 2 \<rparr>, [1]) \<and>
   TensorShape 1 2 2 \<noteq> TensorShape (cfg_channels default_config) (cfg_width default_config)
                         (cfg_height default_config)"
proof -
  have n: "SlimImageTransformerBase_Transform
     (blank_scale \<lparr> m_imgWidth := 2, m_imgHeight := 2, m_imgChannels := 3,
                    m_interp := [INTER_LINEAR] \<rparr>) float_stream = (Inr float_stream, scale_2x2x3)"
    by (simp add: blank_scale_def SlimImageTransformerBase_Transform_def
        float_stream_def scale_2x2x3_def)
  have t: "m_imageElementType scale_2x2x3 = 5" "m_imgWidth scale_2x2x3 = 2"
    "m_imgHeight scale_2x2x3 = 2" "m_imgChannels scale_2x2x3 = 3"
    "m_interp scale_2x2x3 = [1]" "m_seed scale_2x2x3 = 0"
    by (simp_all add: scale_2x2x3_def blank_scale_def CV_32F_def INTER_LINEAR_def)
  have i: "int_of_size_t (Suc 0) = 1" "int_of_size_t 2 = 2" "int_of_size_t 4 = 4"
    using int_of_size_t_small [of 1] int_of_size_t_small [of 2] int_of_size_t_small [of 4]
    by simp_all
  have z: "size_t_of_int 1 = 1" "size_t_of_int 2 = 2"
    by (simp_all add: size_t_of_int_def)
  have rp: "replicate 4 (0::nat) = [0, 0, 0, 0]" by code_simp
  have a: "SlimScaleTransformer_Apply True plain_cv counter_lib scale_2x2x3 0
             \<lparr> rows = 4, cols = 4, depth = 5, channels = 1, elems = [0 ..< 16] \<rparr> [] =
           (Inr \<lparr> rows = 2, cols = 2, depth = 5, channels = 1, elems = [0, 0, 0, 0] \<rparr>, [1])"
    by (simp add: SlimScaleTransformer_Apply_def t i Mat_type_def CV_MAKETYPE_def convertTo_def
          CV_MAT_DEPTH_def pop_or_create_def push_def counter_lib_simps cv_resize_def
          plain_cv_def rp)
  have s: "SlimImageTransformerBase_Transform_seq (SlimScaleTransformer_Apply True plain_cv counter_lib scale_2x2x3)
     scale_2x2x3 sample_1x4x4 [] =
     (Inr \<lparr> m_id = 0, m_data = [0, 0, 0, 0], m_numberOfSamples = 1,
            m_sampleLayout_seq = TensorShape 1 2 2 \<rparr>, [1])"
    by (simp add: SlimImageTransformerBase_Transform_seq_def sample_1x4x4_def t i z Mat_of_def
          CV_MAKETYPE_def CV_MAT_DEPTH_def CV_MAT_CN_def Let_def a)
  from scale_2x2x3_built(1) n s show ?thesis by (simp add: default_config_def)
qed

end
